theory Spec2Isabelle
  imports Complex_Main "HOL-Library.Word"
begin

section \<open>Frame source (CVSource.cpp)\<close>

subsection \<open>Values shared by the frame source\<close>

text \<open>
  A \<open>double\<close> that the code only stores, copies, compares with zero or truncates to an
  \<open>int\<close> (frame rate, stream position, clock readings, property values) is a rational.
  The four log macros append one line, tagged with its level and its format string.
\<close>

datatype level = DBG | INFO | WRN | ERR

text \<open>\<open>static_cast<int>(d)\<close>: truncation toward zero (values stay inside the \<open>int\<close> range).\<close>

definition static_cast_int :: "rat \<Rightarrow> int" where
  "static_cast_int d = (if 0 \<le> d then \<lfloor>d\<rfloor> else \<lceil>d\<rceil>)"

text \<open>
  \<open>cv::Mat\<close>, two-dimensional and continuous: its header and its data buffer
  (row-major, channels interleaved).
\<close>

record Mat =
  rows :: nat
  cols :: nat
  channels :: nat
  pix :: "nat list"

definition Mat_default :: Mat where
  "Mat_default = \<lparr>rows = 0, cols = 0, channels = 1, pix = []\<rparr>"

definition Mat_empty :: "Mat \<Rightarrow> bool" where
  "Mat_empty m = (rows m = 0 \<or> cols m = 0)"

text \<open>
  \<open>Mat::reshape(new_cn, new_rows)\<close> of the OpenCV library: the buffer is shared, only the
  header changes; \<open>None\<close> is the \<open>cv::Exception\<close> it raises when the element count does not
  fit the requested shape.
\<close>

definition reshape :: "Mat \<Rightarrow> nat \<Rightarrow> nat \<Rightarrow> Mat option" where
  "reshape m new_cn0 new_rows0 =
     (let cn = channels m;
          new_cn = (if new_cn0 = 0 then cn else new_cn0);
          total_width = cols m * cn;
          new_rows = (if (new_cn > total_width \<or> total_width mod new_cn \<noteq> 0) \<and> new_rows0 = 0
                      then rows m * total_width div new_cn else new_rows0)
      in if new_rows \<noteq> 0 \<and> new_rows \<noteq> rows m then
           (let total_size = total_width * rows m in
            if new_rows > total_size then None
            else if (total_size div new_rows) * new_rows \<noteq> total_size then None
            else if ((total_size div new_rows) div new_cn) * new_cn \<noteq> total_size div new_rows
            then None
            else Some (m\<lparr>rows := new_rows, cols := (total_size div new_rows) div new_cn,
                         channels := new_cn\<rparr>))
         else if (total_width div new_cn) * new_cn \<noteq> total_width then None
         else Some (m\<lparr>cols := total_width div new_cn, channels := new_cn\<rparr>))"

subsection \<open>The capture backend\<close>

text \<open>
  \<open>cv::VideoCapture\<close> is an external library object. It is modelled by what it answers:
  whether it opened, the frames it will still deliver (each with the stream position it
  reports after delivering it), the value it reports for each property, and for each
  property and requested value whether it accepts the request (\<open>Some v\<close>: accepted, and
  \<open>v\<close> is what it reports from then on). \<open>calls\<close> records every read, get and set made on
  it, oldest first.
\<close>

datatype cap_prop = CAP_PROP_POS_MSEC | CAP_PROP_POS_FRAMES | CAP_PROP_FRAME_WIDTH
  | CAP_PROP_FRAME_HEIGHT | CAP_PROP_FPS | CAP_PROP_FOURCC | CAP_PROP_CONVERT_RGB

datatype cap_call = CallRead | CallGet cap_prop | CallSet cap_prop rat

record VideoCapture =
  isOpened :: bool
  frames :: "(Mat \<times> rat) list"
  props :: "cap_prop \<Rightarrow> rat"
  adopts :: "cap_prop \<Rightarrow> rat \<Rightarrow> rat option"
  calls :: "cap_call list"

definition cap_read :: "VideoCapture \<Rightarrow> (bool \<times> Mat) \<times> VideoCapture" where
  "cap_read c =
     (let c' = c\<lparr>calls := calls c @ [CallRead]\<rparr> in
      if isOpened c then
        (case frames c of
           [] \<Rightarrow> ((False, Mat_default), c')
         | (m, pos) # rest \<Rightarrow>
             ((\<not> Mat_empty m, m),
              c'\<lparr>frames := rest, props := (props c)(CAP_PROP_POS_MSEC := pos)\<rparr>))
      else ((False, Mat_default), c'))"

definition cap_get :: "cap_prop \<Rightarrow> VideoCapture \<Rightarrow> rat \<times> VideoCapture" where
  "cap_get p c = (props c p, c\<lparr>calls := calls c @ [CallGet p]\<rparr>)"

definition cap_set :: "cap_prop \<Rightarrow> rat \<Rightarrow> VideoCapture \<Rightarrow> bool \<times> VideoCapture" where
  "cap_set p v c =
     (let c' = c\<lparr>calls := calls c @ [CallSet p v]\<rparr> in
      case adopts c p v of
        None \<Rightarrow> (False, c')
      | Some v' \<Rightarrow> (True, c'\<lparr>props := (props c)(p := v')\<rparr>))"

text \<open>
  What the constructor can reach: the capture the library builds for a camera index, the
  one it builds for a file name, and what \<open>cv::imread\<close> decodes from a file name (an empty
  matrix when it cannot).
\<close>

record backend =
  camera :: "int \<Rightarrow> VideoCapture"
  video :: "string \<Rightarrow> VideoCapture"
  imread :: "string \<Rightarrow> Mat"

subsection \<open>\<open>std::stoi\<close>\<close>

definition isspace_c :: "char \<Rightarrow> bool" where
  "isspace_c c = (c \<in> set [CHR 0x20, CHR 0x09, CHR 0x0A, CHR 0x0B, CHR 0x0C, CHR 0x0D])"

definition isdigit_c :: "char \<Rightarrow> bool" where
  "isdigit_c c = (48 \<le> (of_char c :: nat) \<and> (of_char c :: nat) \<le> 57)"

definition digits_value :: "string \<Rightarrow> int" where
  "digits_value ds = foldl (\<lambda>acc c. 10 * acc + (int (of_char c) - 48)) 0 ds"

text \<open>
  \<open>None\<close> stands for the exception (\<open>invalid_argument\<close> when no digit follows the optional
  white space and sign, \<open>out_of_range\<close> when the value does not fit an \<open>int\<close>). Characters
  after the digits are ignored, as \<open>std::stoi\<close> does.
\<close>

definition stoi :: "string \<Rightarrow> int option" where
  "stoi str =
     (let t = dropWhile isspace_c str;
          neg = (t \<noteq> [] \<and> hd t = CHR ''-'');
          u = (if t \<noteq> [] \<and> (hd t = CHR ''-'' \<or> hd t = CHR ''+'') then tl t else t);
          ds = takeWhile isdigit_c u;
          v = (if neg then - digits_value ds else digits_value ds)
      in if ds = [] then None
         else if v < - (2 ^ 31) \<or> 2 ^ 31 - 1 < v then None
         else Some v)"

subsection \<open>The source object\<close>

text \<open>
  The class declaration (\<open>CVSource.h\<close>, \<open>FrameSource.h\<close>) is not among the sources; the
  members are those \<open>CVSource.cpp\<close> reads and assigns, with the log kept beside them.
\<close>

datatype BAYER_TYPE = BAYER_NONE | BAYER_RGGB | BAYER_GRBG | BAYER_GBRG | BAYER_BGGR

record CVSource =
  s_open :: bool
  s_live :: bool
  s_is_image :: bool
  s_cap :: "VideoCapture option"
  s_frame_cap :: Mat
  s_frame_flp :: Mat
  s_width :: int
  s_height :: int
  s_fps :: rat
  s_bayerType :: BAYER_TYPE
  s_timestamp :: rat
  s_ms_since_midnight :: rat
  s_log :: "(level \<times> string) list"

definition logline :: "level \<Rightarrow> string \<Rightarrow> CVSource \<Rightarrow> CVSource" where
  "logline l msg s = s\<lparr>s_log := s_log s @ [(l, msg)]\<rparr>"

subsection \<open>Constructor: the three trials\<close>

text \<open>
  Each \<open>try\<close> block is a function returning whether it ran to its end, with the object as
  the block left it: what was assigned before a \<open>throw\<close> stays assigned. The
  \<open>VideoCapture\<close> constructors and \<open>cv::imread\<close> report failure through their result and
  do not raise.
\<close>

definition trial_camera :: "backend \<Rightarrow> string \<Rightarrow> CVSource \<Rightarrow> bool \<times> CVSource" where
  "trial_camera be input s =
     (let s1 = logline DBG ''Trying source as camera id...'' s in
      if length input > 2 then (False, s1)
      else case stoi input of
        None \<Rightarrow> (False, s1)
      | Some ident \<Rightarrow>
          (let c = camera be ident; s2 = s1\<lparr>s_cap := Some c\<rparr> in
           if \<not> isOpened c then (False, s2)
           else (let (r, c') = cap_read c; s3 = s2\<lparr>s_cap := Some c'\<rparr> in
                 if Mat_empty (snd r) then (False, s3)
                 else (True, (logline INFO ''Using source type: camera id.'' s3)
                               \<lparr>s_open := True, s_live := True\<rparr>))))"

definition trial_video :: "backend \<Rightarrow> string \<Rightarrow> CVSource \<Rightarrow> bool \<times> CVSource" where
  "trial_video be input s =
     (let s1 = logline DBG ''Trying source as video file...'' s;
          c = video be input; s2 = s1\<lparr>s_cap := Some c\<rparr> in
      if \<not> isOpened c then (False, s2)
      else (let (r, c') = cap_read c; s3 = s2\<lparr>s_cap := Some c'\<rparr> in
            if Mat_empty (snd r) then (False, s3)
            else (True, (logline INFO ''Using source type: video file.'' s3)
                          \<lparr>s_open := True, s_live := False\<rparr>)))"

definition trial_image :: "backend \<Rightarrow> string \<Rightarrow> CVSource \<Rightarrow> bool \<times> CVSource" where
  "trial_image be input s =
     (let s1 = logline DBG ''Trying source as image file...'' s;
          s2 = s1\<lparr>s_frame_cap := imread be input\<rparr> in
      if Mat_empty (s_frame_cap s2) then (False, s2)
      else (True, (logline INFO ''Using source type: image file.'' s2)
                    \<lparr>s_open := True, s_live := False, s_is_image := True\<rparr>))"

text \<open>\<open>getFPS\<close>: the backend's rate when there is an open source with a capture object.\<close>

definition getFPS :: "CVSource \<Rightarrow> rat \<times> CVSource" where
  "getFPS s =
     (case s_cap s of
        Some c \<Rightarrow> if s_open s
                  then (let (v, c') = cap_get CAP_PROP_FPS c in (v, s\<lparr>s_cap := Some c'\<rparr>))
                  else (s_fps s, s)
      | None \<Rightarrow> (s_fps s, s))"

text \<open>
  The block \<open>if (_open) { ... }\<close> that ends the constructor. On its capture branch \<open>_cap\<close>
  is the object a successful camera or video trial assigned, so the \<open>None\<close> case below is
  never taken.
\<close>

definition init_dims :: "CVSource \<Rightarrow> CVSource" where
  "init_dims s =
     (let s1 = (if s_is_image s
                then s\<lparr>s_width := int (cols (s_frame_cap s)),
                       s_height := int (rows (s_frame_cap s))\<rparr>
                else (case s_cap s of
                        None \<Rightarrow> s
                      | Some c \<Rightarrow>
                          (let (w, c1) = cap_get CAP_PROP_FRAME_WIDTH c;
                               (h, c2) = cap_get CAP_PROP_FRAME_HEIGHT c1
                           in s\<lparr>s_width := static_cast_int w, s_height := static_cast_int h,
                                s_cap := Some c2\<rparr>)))
      in if s_live s1
         then (let (f, s2) = getFPS s1
               in logline INFO ''OpenCV camera source initialised (%dx%d @ %.3f fps)!''
                    (s2\<lparr>s_fps := f\<rparr>))
         else if s_is_image s1
         then logline INFO ''OpenCV image source initialised (%dx%d)!'' s1
         else logline INFO ''OpenCV video source initialised (%dx%d)!'' s1)"

text \<open>
  \<open>CVSource::CVSource(input)\<close>. \<open>s0\<close> is the object as the member initialisers of the
  class declaration leave it; the constructor's own initialiser list sets \<open>_is_image\<close>.
\<close>

definition CVSource_ctor :: "backend \<Rightarrow> CVSource \<Rightarrow> string \<Rightarrow> CVSource" where
  "CVSource_ctor be s0 input =
     (let s = logline DBG ''Source is: %s'' (s0\<lparr>s_is_image := False\<rparr>);
          (ok1, s1) = trial_camera be input s;
          s' = (if ok1 then s1
                else (let (ok2, s2) = trial_video be input s1 in
                      if ok2 then s2
                      else (let (ok3, s3) = trial_image be input s2 in
                            if ok3 then s3
                            else (logline ERR ''Could not interpret source type (%s)!'' s3)
                                   \<lparr>s_open := False\<rparr>)))
      in if s_open s' then init_dims s' else s')"

subsection \<open>\<open>setFPS\<close>, \<open>setWH\<close>, \<open>rewind\<close>\<close>

definition setFPS :: "rat \<Rightarrow> CVSource \<Rightarrow> bool \<times> CVSource" where
  "setFPS fps s =
     (let ret = False in
      case s_cap s of
        None \<Rightarrow> (ret, s)
      | Some c \<Rightarrow>
          if s_open s \<and> fps > 0 then
            (let (ok, c') = cap_set CAP_PROP_FPS fps c; s1 = s\<lparr>s_cap := Some c'\<rparr> in
             if \<not> ok then
               (ret, logline INFO ''Playback frame rate is now %.2f''
                       ((logline WRN
                           ''Warning! Failed to set device fps (attempted to set fps=%.2f).'' s1)
                          \<lparr>s_fps := fps\<rparr>))
             else (let (f, s2) = getFPS s1
                   in (ret, logline INFO ''Device frame rate is now %.2f'' (s2\<lparr>s_fps := f\<rparr>))))
          else (ret, s))"

text \<open>
  Modelled from the spec: \<open>setBayerType\<close> is declared in the absent header; the spec's
  configured Bayer layout is the member \<open>_bayerType\<close> that \<open>grab\<close> switches on.
\<close>

definition setBayerType :: "BAYER_TYPE \<Rightarrow> CVSource \<Rightarrow> CVSource" where
  "setBayerType b s = s\<lparr>s_bayerType := b\<rparr>"

text \<open>
  \<open>fourcc\<close> is the code \<open>cv::VideoWriter::fourcc('G','R','B','G')\<close>, a constant of the
  library.
\<close>

definition setWH :: "rat \<Rightarrow> int \<Rightarrow> int \<Rightarrow> CVSource \<Rightarrow> bool \<times> CVSource" where
  "setWH fourcc width height s =
     (case s_cap s of
        None \<Rightarrow> (False, s)
      | Some c \<Rightarrow>
          if s_open s \<and> width > 0 \<and> height > 0 then
            (let sa = logline INFO ''Backend is %s'' s;
                 (codec_set, c1) = cap_set CAP_PROP_FOURCC fourcc c;
                 (u, c2) = cap_set CAP_PROP_CONVERT_RGB 0 c1;
                 sb = setBayerType BAYER_GRBG sa;
                 (width_set, c3) = cap_set CAP_PROP_FRAME_WIDTH (of_int width) c2;
                 (height_set, c4) = cap_set CAP_PROP_FRAME_HEIGHT (of_int height) c3
             in if \<not> (width_set \<and> height_set) then
                  (False, logline INFO ''Playback dimensions are now %dx%d''
                     ((logline WRN
                         ''Warning! Failed to set the device width/heigth (attempted to set %dx%d''
                         (sb\<lparr>s_cap := Some c4\<rparr>))
                        \<lparr>s_width := width, s_height := height\<rparr>))
                else
                  (let (w, c5) = cap_get CAP_PROP_FRAME_WIDTH c4;
                       (h, c6) = cap_get CAP_PROP_FRAME_HEIGHT c5;
                       sc = logline INFO ''Device dimension is now %dx%d''
                              (sb\<lparr>s_cap := Some c6, s_width := static_cast_int w,
                                  s_height := static_cast_int h\<rparr>)
                   in (s_width sc = width \<and> s_height sc = height, sc)))
          else (False, s))"

definition rewind :: "CVSource \<Rightarrow> bool \<times> CVSource" where
  "rewind s =
     (case s_cap s of
        None \<Rightarrow> (False, s)
      | Some c \<Rightarrow>
          if s_open s then
            (let (ok, c') = cap_set CAP_PROP_POS_FRAMES 0 c; s1 = s\<lparr>s_cap := Some c'\<rparr> in
             if \<not> ok then (False, logline WRN ''Warning! Failed to rewind source.'' s1)
             else (True, s1))
          else (False, s))"

subsection \<open>\<open>grab\<close>\<close>

text \<open>
  Colour conversion and flipping are pixel operations of the image library: they are
  parameters. \<open>Inl\<close> is abnormal termination: a null \<open>_cap\<close> dereferenced, or the library's
  exception leaving \<open>grab\<close>. \<open>Inr (None, s)\<close> is \<open>return false\<close>, \<open>Inr (Some f, s)\<close> is
  \<open>return true\<close> with \<open>f\<close> stored in the caller's frame. \<open>ts\<close> and \<open>msm\<close> are the readings of
  \<open>ts_ms()\<close> and \<open>ms_since_midnight()\<close>. The pacing block that follows the colour
  conversion only sleeps and updates its own function-local variables; it changes neither
  the object nor the result and is left out.
\<close>

datatype fault = NullDeref | CvException | OutOfRange | Starved

datatype cvt_code = COLOR_BayerBG2BGR | COLOR_BayerGB2BGR | COLOR_BayerGR2BGR
  | COLOR_BayerRG2BGR | COLOR_GRAY2BGR

record imgproc =
  cv_cvtColor :: "cvt_code \<Rightarrow> Mat \<Rightarrow> Mat"
  cv_flip :: "Mat \<Rightarrow> int \<Rightarrow> Mat"

definition bayer_code :: "BAYER_TYPE \<Rightarrow> cvt_code" where
  "bayer_code b =
     (case b of
        BAYER_BGGR \<Rightarrow> COLOR_BayerBG2BGR
      | BAYER_GBRG \<Rightarrow> COLOR_BayerGB2BGR
      | BAYER_GRBG \<Rightarrow> COLOR_BayerGR2BGR
      | BAYER_RGGB \<Rightarrow> COLOR_BayerRG2BGR
      | BAYER_NONE \<Rightarrow> COLOR_GRAY2BGR)"

text \<open>Line 189: \<open>!_is_image && !_cap->read(_frame_cap)\<close>; the flag returned is \<open>read\<close>'s.\<close>

definition grab_read :: "CVSource \<Rightarrow> fault + (bool \<times> CVSource)" where
  "grab_read s =
     (if s_is_image s then Inr (True, s)
      else case s_cap s of
        None \<Rightarrow> Inl NullDeref
      | Some c \<Rightarrow>
          (let (r, c') = cap_read c
           in Inr (fst r, s\<lparr>s_cap := Some c', s_frame_cap := snd r\<rparr>)))"

text \<open>Lines 200-203: a one-row frame is reshaped, keeping its channel count.\<close>

definition grab_reshape :: "CVSource \<Rightarrow> CVSource option" where
  "grab_reshape s =
     (if rows (s_frame_cap s) = 1
      then map_option
             (\<lambda>m. logline DBG ''reshape image returned from camera to %dx%d[%d]''
                    (s\<lparr>s_frame_cap := m\<rparr>))
             (reshape (s_frame_cap s) (channels (s_frame_cap s)) 240)
      else Some s)"

definition grab_convert :: "imgproc \<Rightarrow> CVSource \<Rightarrow> CVSource" where
  "grab_convert ip s =
     s\<lparr>s_frame_flp :=
         (if channels (s_frame_cap s) = 1
          then cv_cvtColor ip (bayer_code (s_bayerType s)) (s_frame_cap s)
          else s_frame_cap s)\<rparr>"

definition grab :: "imgproc \<Rightarrow> rat \<Rightarrow> rat \<Rightarrow> CVSource \<Rightarrow> fault + (Mat option \<times> CVSource)" where
  "grab ip ts msm s =
     (if \<not> s_open s then Inr (None, s)
      else case grab_read s of
        Inl f \<Rightarrow> Inl f
      | Inr (ok, s1) \<Rightarrow>
          if \<not> ok then Inr (None, logline ERR ''Error grabbing image frame!'' s1)
          else (case s_cap s1 of
                  None \<Rightarrow> Inl NullDeref
                | Some c \<Rightarrow>
                    (let (pos, c') = cap_get CAP_PROP_POS_MSEC c;
                         s2 = logline DBG
                                ''Frame captured %dx%d[%d] @ %f (t_sys: %f ms, t_day: %f ms)''
                                (s1\<lparr>s_ms_since_midnight := msm, s_cap := Some c',
                                    s_timestamp := pos\<rparr>);
                         s3 = (if s_timestamp s2 \<le> 0 then s2\<lparr>s_timestamp := ts\<rparr> else s2)
                     in case grab_reshape s3 of
                          None \<Rightarrow> Inl CvException
                        | Some s4 \<Rightarrow>
                            (let s5 = grab_convert ip s4
                             in Inr (Some (cv_flip ip (s_frame_flp s5) 0), s5)))))"

section \<open>Calibration session (ConfigGUI.cpp)\<close>

subsection \<open>Input data and the mouse callback\<close>

text \<open>
  \<open>cv::Point2d\<close> holds two doubles. Every coordinate the session stores comes from an
  \<open>int\<close> (a mouse position or a config entry), which a double holds exactly, and the only
  arithmetic on it is adding one half before truncating; so a coordinate is a rational.
\<close>

type_synonym Point2d = "rat \<times> rat"

text \<open>
  The class declaration (\<open>ConfigGui.h\<close>) is not among the sources. The modes are those
  \<open>ConfigGUI.cpp\<close> names (\<open>R_MAN\<close> only in code that is commented out: the \<open>switch\<close> of
  \<open>run\<close> sends it to \<open>default\<close>), and the fields of the input data are those it uses.
\<close>

datatype INPUT_MODE = CIRC_INIT | CIRC_PTS | IGNR_INIT | IGNR_PTS | R_INIT | R_SLCT
  | R_XY | R_YZ | R_XZ | R_MAN | R_EXT | EXIT

record INPUT_DATA =
  mode :: INPUT_MODE
  circPts :: "Point2d list"
  ignrPts :: "Point2d list list"
  sqrPts :: "Point2d list"
  cursorPt :: Point2d
  newEvent :: bool

datatype mouse_event = CV_EVENT_MOUSEMOVE | CV_EVENT_LBUTTONDOWN | CV_EVENT_LBUTTONUP
  | CV_EVENT_RBUTTONUP | CV_EVENT_OTHER

definition Point2d :: "int \<Rightarrow> int \<Rightarrow> Point2d" where
  "Point2d x y = (of_int x, of_int y)"

text \<open>\<open>v.back().push_back(p)\<close> and \<open>v.back().pop_back()\<close> on a non-empty vector of vectors.\<close>

definition back_push :: "'a list list \<Rightarrow> 'a \<Rightarrow> 'a list list" where
  "back_push v p = butlast v @ [last v @ [p]]"

definition back_pop :: "'a list list \<Rightarrow> 'a list list" where
  "back_pop v = butlast v @ [butlast (last v)]"

definition onMouseEvent :: "mouse_event \<Rightarrow> int \<Rightarrow> int \<Rightarrow> INPUT_DATA \<Rightarrow> INPUT_DATA" where
  "onMouseEvent event x y pdata =
     (case event of
        CV_EVENT_LBUTTONDOWN \<Rightarrow> pdata
      | CV_EVENT_LBUTTONUP \<Rightarrow>
          (case mode pdata of
             CIRC_PTS \<Rightarrow> pdata\<lparr>circPts := circPts pdata @ [Point2d x y], newEvent := True\<rparr>
           | IGNR_PTS \<Rightarrow>
               (let v = (if ignrPts pdata = [] then [[]] else ignrPts pdata)
                in pdata\<lparr>ignrPts := back_push v (Point2d x y), newEvent := True\<rparr>)
           | R_XY \<Rightarrow> pdata\<lparr>sqrPts := sqrPts pdata @ [Point2d x y], newEvent := True\<rparr>
           | R_YZ \<Rightarrow> pdata\<lparr>sqrPts := sqrPts pdata @ [Point2d x y], newEvent := True\<rparr>
           | R_XZ \<Rightarrow> pdata\<lparr>sqrPts := sqrPts pdata @ [Point2d x y], newEvent := True\<rparr>
           | _ \<Rightarrow> pdata)
      | CV_EVENT_RBUTTONUP \<Rightarrow>
          (case mode pdata of
             CIRC_PTS \<Rightarrow>
               pdata\<lparr>circPts := (if length (circPts pdata) > 0 then butlast (circPts pdata)
                                   else circPts pdata),
                       newEvent := True\<rparr>
           | IGNR_PTS \<Rightarrow>
               pdata\<lparr>ignrPts := (if ignrPts pdata \<noteq> []
                                   then (if last (ignrPts pdata) = [] then butlast (ignrPts pdata)
                                         else back_pop (ignrPts pdata))
                                   else ignrPts pdata),
                       newEvent := True\<rparr>
           | R_XY \<Rightarrow>
               pdata\<lparr>sqrPts := (if length (sqrPts pdata) > 0 then butlast (sqrPts pdata)
                                  else sqrPts pdata),
                       newEvent := True\<rparr>
           | R_YZ \<Rightarrow>
               pdata\<lparr>sqrPts := (if length (sqrPts pdata) > 0 then butlast (sqrPts pdata)
                                  else sqrPts pdata),
                       newEvent := True\<rparr>
           | R_XZ \<Rightarrow>
               pdata\<lparr>sqrPts := (if length (sqrPts pdata) > 0 then butlast (sqrPts pdata)
                                  else sqrPts pdata),
                       newEvent := True\<rparr>
           | _ \<Rightarrow> pdata)
      | CV_EVENT_MOUSEMOVE \<Rightarrow> pdata\<lparr>cursorPt := Point2d x y\<rparr>
      | CV_EVENT_OTHER \<Rightarrow> pdata)"

text \<open>The callbacks the window system makes during one wait, in order.\<close>

definition deliver :: "(mouse_event \<times> int \<times> int) list \<Rightarrow> INPUT_DATA \<Rightarrow> INPUT_DATA" where
  "deliver evs pdata = foldl (\<lambda>d (e, x, y). onMouseEvent e x y d) pdata evs"

text \<open>
  Modelled from the spec: \<open>INPUT_DATA::addPoly\<close>, declared in the header, which is not
  among the sources; the spec's commit rule for ignore regions says it starts a new empty
  polygon.
\<close>

definition addPoly :: "INPUT_DATA \<Rightarrow> INPUT_DATA" where
  "addPoly pdata = pdata\<lparr>ignrPts := ignrPts pdata @ [[]]\<rparr>"

subsection \<open>The config store\<close>

text \<open>
  Modelled from the spec: the class \<open>ConfigParser\<close> behind \<open>_cfg\<close> is not among the sources.
  The spec describes a keyed store whose entries are a string, a flat int sequence, a
  sequence of flat int sequences, or floats, and which returns what was written, in
  order. A typed getter fails on a missing key and on an entry of another type.
\<close>

datatype cfg_val = Str string | VecInt "int list" | VVecInt "int list list" | VecDbl "rat list"

type_synonym ConfigParser = "string \<rightharpoonup> cfg_val"

definition getStr :: "ConfigParser \<Rightarrow> string \<Rightarrow> string option" where
  "getStr cfg k = (case cfg k of Some (Str v) \<Rightarrow> Some v | _ \<Rightarrow> None)"

definition getVecInt :: "ConfigParser \<Rightarrow> string \<Rightarrow> int list option" where
  "getVecInt cfg k = (case cfg k of Some (VecInt v) \<Rightarrow> Some v | _ \<Rightarrow> None)"

definition getVVecInt :: "ConfigParser \<Rightarrow> string \<Rightarrow> int list list option" where
  "getVVecInt cfg k = (case cfg k of Some (VVecInt v) \<Rightarrow> Some v | _ \<Rightarrow> None)"

definition getVecDbl :: "ConfigParser \<Rightarrow> string \<Rightarrow> rat list option" where
  "getVecDbl cfg k = (case cfg k of Some (VecDbl v) \<Rightarrow> Some v | _ \<Rightarrow> None)"

definition cfg_add :: "string \<Rightarrow> cfg_val \<Rightarrow> ConfigParser \<Rightarrow> ConfigParser" where
  "cfg_add k v cfg = cfg(k \<mapsto> v)"

subsection \<open>Console input\<close>

text \<open>
  Standard input is the list of characters still to come; its end is end-of-file.
  \<open>getchar\<close> returns \<open>EOF\<close> (-1) there.
\<close>

definition getchar :: "string \<Rightarrow> int \<times> string" where
  "getchar inp = (case inp of [] \<Rightarrow> (- 1, []) | c # r \<Rightarrow> (int (of_char c), r))"

text \<open>
  The keep-existing prompt (lines 436-460, 570-594, 733-757): the three loops differ only
  in the state they advance to. The result is the answer, the number of
  \<open>Invalid input!\<close> warnings, and the input left. At end-of-file \<open>getchar\<close> returns \<open>EOF\<close>, the
  \<open>default\<close> branch runs \<open>continue\<close>, and the loop never ends: \<open>None\<close>.
\<close>

fun keep_prompt :: "string \<Rightarrow> nat \<Rightarrow> (bool \<times> nat \<times> string) option" where
  "keep_prompt [] w = None"
| "keep_prompt (c # rest) w =
     (if c = CHR ''y'' \<or> c = CHR ''Y'' then Some (True, w, snd (getchar rest))
      else if c = CHR 0x0A then Some (True, w, rest)
      else if c = CHR ''n'' \<or> c = CHR ''N'' then Some (False, w, snd (getchar rest))
      else keep_prompt (drop 1 rest) (Suc w))"

text \<open>
  \<open>std::getline(std::cin, str)\<close>: \<open>failed\<close> is the stream's error state. On a failed stream
  the call leaves \<open>str\<close> as it was; otherwise it reads up to and without the next newline,
  and reaching end-of-file puts the stream in the error state for the calls that follow.
\<close>

definition getline :: "string \<Rightarrow> bool \<Rightarrow> string \<Rightarrow> string \<times> string \<times> bool" where
  "getline inp failed str =
     (if failed then (str, inp, True)
      else if CHR 0x0A \<in> set inp
      then (takeWhile (\<lambda>c. c \<noteq> CHR 0x0A) inp, drop 1 (dropWhile (\<lambda>c. c \<noteq> CHR 0x0A) inp), False)
      else (inp, [], True))"

text \<open>
  The method menu (lines 779-828). \<open>choice\<close> is the \<open>switch\<close> on the number entered; the
  loop reads lines until one selects a method. Once the stream has failed, \<open>str\<close> no longer
  changes: an invalid \<open>str\<close> then repeats forever (\<open>None\<close>).
\<close>

definition menu_choice :: "string \<Rightarrow> INPUT_MODE option" where
  "menu_choice str =
     (case (if str = [] then Some 1 else stoi str) of
        None \<Rightarrow> None
      | Some n \<Rightarrow> if n = 1 then Some R_XY else if n = 2 then Some R_YZ
                  else if n = 3 then Some R_XZ else if n = 5 then Some R_EXT else None)"

function method_prompt :: "string \<Rightarrow> nat \<Rightarrow> (INPUT_MODE \<times> nat \<times> string \<times> bool) option"
  where
  "method_prompt inp w =
     (case getline inp False [] of (str, rest, failed) \<Rightarrow>
        (case menu_choice str of
           Some m \<Rightarrow> Some (m, w, rest, failed)
         | None \<Rightarrow> if failed then None else method_prompt rest (Suc w)))"
  by pat_completeness auto
termination
proof (relation "measure (\<lambda>(inp, w). length inp)")
  show "wf (measure (\<lambda>(inp, w). length inp))" by simp
next
  fix inp :: string and w :: nat and x str y rest failed
  assume g: "(str, y) = getline inp False []" "(rest, failed) = y" "\<not> failed"
  have "CHR 0x0A \<in> set inp"
    using g by (auto simp: getline_def split: if_splits)
  hence "inp \<noteq> []" by auto
  moreover have "rest = drop 1 (dropWhile (\<lambda>c. c \<noteq> CHR 0x0A) inp)"
    using g by (auto simp: getline_def split: if_splits)
  moreover have "length (dropWhile (\<lambda>c. c \<noteq> CHR 0x0A) inp) \<le> length inp"
    by (rule length_dropWhile_le)
  moreover have "dropWhile (\<lambda>c. c \<noteq> CHR 0x0A) inp \<noteq> []"
    using \<open>CHR 0x0A \<in> set inp\<close> by (auto simp: dropWhile_eq_Nil_conv)
  ultimately show "((rest, Suc w), inp, w) \<in> measure (\<lambda>(inp, w). length inp)"
    by (cases "dropWhile (\<lambda>c. c \<noteq> CHR 0x0A) inp") auto
qed

declare method_prompt.simps [simp del]

subsection \<open>Loading and dumping points\<close>

text \<open>
  Lines 417-419, 547-549 and 687-689:
  \<open>for (unsigned int i = 1; i < v.size(); i += 2) pts.push_back(Point2d(v[i-1], v[i]))\<close>,
  called with \<open>i = 1\<close> and no points (a config sequence is far shorter than the range of
  \<open>unsigned int\<close>).
\<close>

function load_pts :: "nat \<Rightarrow> int list \<Rightarrow> Point2d list \<Rightarrow> Point2d list" where
  "load_pts i v pts =
     (if i < length v then load_pts (i + 2) v (pts @ [Point2d (v ! (i - 1)) (v ! i)]) else pts)"
  by pat_completeness auto
termination
  by (relation "measure (\<lambda>(i, v, pts). length v - i)") auto

declare load_pts.simps [simp del]

text \<open>
  Lines 509-512, 640-643 and 278-281: each point contributes
  \<open>static_cast<int>(p.x + 0.5)\<close> and \<open>static_cast<int>(p.y + 0.5)\<close>.
\<close>

definition cfg_ints :: "Point2d list \<Rightarrow> int list" where
  "cfg_ints pts =
     concat (map (\<lambda>p. [static_cast_int (fst p + 1 / 2), static_cast_int (snd p + 1 / 2)]) pts)"

subsection \<open>Session state\<close>

text \<open>
  What one pass of the display/input loop receives from outside: the mouse callbacks made
  while it waits, the code \<open>cv::waitKey\<close> returns, and whether a \<open>_cfg.write()\<close> made in this
  pass reports success (a pass writes at most once).
\<close>

record tick =
  mouse :: "(mouse_event \<times> int \<times> int) list"
  keycode :: int
  write_ok :: bool

text \<open>
  Modelled from the spec: the circle fit and the four-point pose solver live in
  \<open>geometry.h\<close> and \<open>CameraModel.h\<close>, which are not among the sources; the spec names them
  external and stateless per call, so they are parameters. A matrix of doubles is the
  list of its entries, row by row (empty list: empty matrix). \<open>circleFit_camModel\<close> yields
  the radius from the points and the radius held before; \<open>computeRtFromSquare\<close> yields its
  flag and the new \<open>R\<close> and \<open>t\<close> from the reference corners, the clicked corners and the
  \<open>R\<close> and \<open>t\<close> held before. \<open>clamp\<close> of the absent \<open>typesvars.h\<close> is a parameter as well:
  its arguments are the value, the lower and the upper bound. The drawing and display calls
  of the libraries (\<open>cv::cvtColor\<close>, \<open>cv::circle\<close>, \<open>cv::line\<close>, \<open>cv::imshow\<close>, \<open>drawCursor\<close>,
  \<open>drawCircle_camModel\<close>, \<open>drawRectCorners\<close>, \<open>drawAxes\<close>) do not touch the session and are
  taken to return; \<open>createZoomROI\<close> and \<open>drawC2ATransform\<close>, which this file defines, are
  modelled below by whether they return.
\<close>

datatype ref_cnrs = XY_CNRS | YZ_CNRS | XZ_CNRS

record geometry =
  circleFit_camModel :: "Point2d list \<Rightarrow> rat \<Rightarrow> rat"
  computeRtFromSquare ::
    "ref_cnrs \<Rightarrow> Point2d list \<Rightarrow> rat list \<Rightarrow> rat list \<Rightarrow> bool \<times> rat list \<times> rat list"
  matrixToOmega :: "rat list \<Rightarrow> rat \<times> rat \<times> rat"
  omegaToMatrix :: "rat \<times> rat \<times> rat \<Rightarrow> rat list"
  clamp :: "int \<Rightarrow> int \<Rightarrow> int \<Rightarrow> int"

text \<open>
  What the session prints or writes, in order: log lines (level and format string, without
  leading newlines), each
  \<open>_cfg.write()\<close> with its outcome, and the \<open>cv::imwrite\<close> of the snapshot with its file name
  and outcome. The long \<open>printf\<close> instructions are left out.
\<close>

datatype event = Log level string | CfgWrite bool | ImWrite string bool

text \<open>
  The object's members, then the locals of \<open>run\<close> that live across passes of the loop
  (\<open>R\<close>, \<open>t\<close>, \<open>r\<close>, \<open>key\<close>, \<open>cfg_r_src\<close>), the console input, and the output so far.
  \<open>g_disk\<close> is the store as the last successful write left it. Of the member \<open>_frame\<close> only
  the size matters here (\<open>disp_frame\<close>, its colour copy made in every pass, has the same
  size): \<open>g_frame_cols\<close> and \<open>g_frame_rows\<close>.
\<close>

record ConfigGui =
  g_open :: bool
  g_config_fn :: string
  g_cfg :: ConfigParser
  g_disk :: ConfigParser
  g_input_data :: INPUT_DATA
  g_frame_cols :: nat
  g_frame_rows :: nat
  g_R :: "rat list"
  g_t :: "rat list"
  g_r :: rat
  g_key :: "8 word"
  g_cfg_r_src :: string
  g_stdin :: string
  g_cin_failed :: bool
  g_out :: "event list"

definition exit_key :: "8 word" where
  "exit_key = 0x1b"

text \<open>The build without \<open>WIN32\<close>.\<close>

definition enter_key :: "8 word" where
  "enter_key = 0x0a"

definition emit :: "event \<Rightarrow> ConfigGui \<Rightarrow> ConfigGui" where
  "emit e s = s\<lparr>g_out := g_out s @ [e]\<rparr>"

definition upd_data :: "(INPUT_DATA \<Rightarrow> INPUT_DATA) \<Rightarrow> ConfigGui \<Rightarrow> ConfigGui" where
  "upd_data f s = s\<lparr>g_input_data := f (g_input_data s)\<rparr>"

definition changeState :: "INPUT_MODE \<Rightarrow> ConfigGui \<Rightarrow> ConfigGui" where
  "changeState new_state s =
     upd_data (\<lambda>d. d\<lparr>mode := new_state\<rparr>)
       (emit (Log DBG ''New state: %s'') (upd_data (\<lambda>d. d\<lparr>newEvent := True\<rparr>) s))"

text \<open>\<open>key = cv::waitKey(5)\<close>: the callbacks run, and the \<open>int\<close> is narrowed to \<open>char\<close>.\<close>

definition waitKey5 :: "tick \<Rightarrow> ConfigGui \<Rightarrow> ConfigGui" where
  "waitKey5 tk s = (upd_data (deliver (mouse tk)) s)\<lparr>g_key := word_of_int (keycode tk)\<rparr>"

text \<open>
  Modelled from the spec: \<open>_cfg.write()\<close> of the absent \<open>ConfigParser\<close>; the flag is
  \<open>_cfg.write() > 0\<close>. A successful write makes the durable store equal to the store in
  memory; what a failed write leaves behind is not described.
\<close>

definition cfg_write :: "tick \<Rightarrow> ConfigGui \<Rightarrow> bool \<times> ConfigGui" where
  "cfg_write tk s =
     (write_ok tk,
      emit (CfgWrite (write_ok tk)) (if write_ok tk then s\<lparr>g_disk := g_cfg s\<rparr> else s))"

definition add_cfg :: "string \<Rightarrow> cfg_val \<Rightarrow> ConfigGui \<Rightarrow> ConfigGui" where
  "add_cfg k v s = s\<lparr>g_cfg := cfg_add k v (g_cfg s)\<rparr>"

text \<open>
  The prompt with the \<open>cv::waitKey(100)\<close> before it; \<open>nxt\<close> is the state an accepting answer
  advances to.
\<close>

definition ask_keep :: "INPUT_MODE \<Rightarrow> tick \<Rightarrow> ConfigGui \<Rightarrow> fault + ConfigGui" where
  "ask_keep nxt tk s =
     (let s1 = upd_data (deliver (mouse tk)) s in
      case keep_prompt (g_stdin s1) 0 of
        None \<Rightarrow> Inl Starved
      | Some (keep, w, rest) \<Rightarrow>
          (let s2 = s1\<lparr>g_stdin := rest,
                       g_out := g_out s1 @ replicate w (Log WRN ''Invalid input!'')\<rparr>
           in Inr (if keep then changeState nxt s2 else s2)))"

subsection \<open>The zoom window and the axes drawing\<close>

text \<open>
  \<open>scaled_zoom_dim\<close> is the local of \<open>run\<close> computed from the two constants (line 399); in
  doubles the product is 60 up to rounding, so the truncation gives 60 as it does here.
\<close>

definition ZOOM_DIM :: int where
  "ZOOM_DIM = 600"

definition ZOOM_SCL :: rat where
  "ZOOM_SCL = 1 / 10"

definition scaled_zoom_dim :: int where
  "scaled_zoom_dim = static_cast_int (of_int ZOOM_DIM * ZOOM_SCL + 1 / 2)"

text \<open>
  \<open>createZoomROI\<close> (lines 127-135), given the frame's size: the result says whether the call
  returns. \<open>frame(cv::Rect(x, y, orig_dim, orig_dim))\<close> raises a \<open>cv::Exception\<close> unless the
  rectangle lies inside the frame; the \<open>cv::resize\<close> of a crop that exists returns. The
  divisions are between non-negative \<open>int\<close>s.
\<close>

definition createZoomROI :: "geometry \<Rightarrow> nat \<Rightarrow> nat \<Rightarrow> Point2d \<Rightarrow> int \<Rightarrow> bool" where
  "createZoomROI gm frame_cols frame_rows pt orig_dim =
     (let x = (if fst pt \<ge> 0
               then clamp gm (static_cast_int (fst pt - of_int (orig_dim div 2) + 1 / 2))
                      (orig_dim div 2) (int frame_cols - 1 - orig_dim)
               else int frame_cols div 2);
          y = (if snd pt \<ge> 0
               then clamp gm (static_cast_int (snd pt - of_int (orig_dim div 2) + 1 / 2))
                      (orig_dim div 2) (int frame_rows - 1 - orig_dim)
               else int frame_rows div 2)
      in 0 \<le> x \<and> 0 \<le> orig_dim \<and> x + orig_dim \<le> int frame_cols \<and>
         0 \<le> y \<and> y + orig_dim \<le> int frame_rows)"

text \<open>
  \<open>drawC2ATransform\<close> (lines 341-359): the result says whether the call returns. Copying an
  empty \<open>t\<close> into the columns of \<open>T\<close> returns; the product and sum \<open>R * ref_cnrs + T\<close> with
  the 3 by 4 matrices \<open>ref_cnrs\<close> and \<open>T\<close> raises a \<open>cv::Exception\<close> unless \<open>R\<close> is a 3 by 3
  matrix of doubles, and an \<open>R\<close> that is not empty has three columns (its producers are
  \<open>omegaToMatrix\<close> and the pose solver).
\<close>

definition drawC2ATransform :: "rat list \<Rightarrow> bool" where
  "drawC2ATransform R = (length R = 9)"

text \<open>
  The block \<open>Draw axes\<close> of the \<open>R_INIT\<close> stage (lines 715-724) and of the code after the
  loop (lines 1051-1060): with four corners held and \<open>cfg_r_src\<close> one of the three corner
  keys, \<open>drawC2ATransform\<close> is called.
\<close>

definition draw_axes :: "ConfigGui \<Rightarrow> bool" where
  "draw_axes s =
     (if length (sqrPts (g_input_data s)) = 4 \<and>
         (g_cfg_r_src s = ''c2a_cnrs_xy'' \<or> g_cfg_r_src s = ''c2a_cnrs_yz'' \<or>
          g_cfg_r_src s = ''c2a_cnrs_xz'')
      then drawC2ATransform (g_R s) else True)"

subsection \<open>The stages of \<open>run\<close>\<close>

definition stage_CIRC_INIT :: "geometry \<Rightarrow> tick \<Rightarrow> ConfigGui \<Rightarrow> fault + ConfigGui" where
  "stage_CIRC_INIT gm tk s =
     (case (case getVecInt (g_cfg s) ''roi_circ'' of
              None \<Rightarrow> Inr s
            | Some cfg_pts \<Rightarrow>
                (let s1 = upd_data (\<lambda>d. d\<lparr>circPts := load_pts 1 cfg_pts []\<rparr>) s in
                 if length (circPts (g_input_data s1)) \<ge> 3 then
                   (let s2 = s1\<lparr>g_r := circleFit_camModel gm (circPts (g_input_data s1))
                                          (g_r s1)\<rparr>
                    in if g_r s2 > 0 then ask_keep IGNR_INIT tk s2 else Inr s2)
                 else Inr s1)) of
        Inl f \<Rightarrow> Inl f
      | Inr s3 \<Rightarrow>
          Inr (if mode (g_input_data s3) = CIRC_INIT
               then changeState CIRC_PTS (upd_data (\<lambda>d. d\<lparr>circPts := []\<rparr>) s3)
               else s3))"

text \<open>
  \<open>CIRC_PTS\<close>. The zoom window is made from the cursor as it is before \<open>cv::waitKey\<close>; when
  \<open>createZoomROI\<close> raises, the pass ends there (\<open>Inl CvException\<close>) and the key is not read.
\<close>

definition stage_CIRC_PTS :: "geometry \<Rightarrow> tick \<Rightarrow> ConfigGui \<Rightarrow> fault + ConfigGui" where
  "stage_CIRC_PTS gm tk s =
     (let d = g_input_data s;
          s1 = (if newEvent d
                then upd_data (\<lambda>d. d\<lparr>newEvent := False\<rparr>)
                       (s\<lparr>g_r := (if length (circPts d) \<ge> 3
                                   then circleFit_camModel gm (circPts d) (g_r s) else - 1)\<rparr>)
                else s)
      in if \<not> createZoomROI gm (g_frame_cols s1) (g_frame_rows s1)
                 (cursorPt (g_input_data s1)) scaled_zoom_dim
         then Inl CvException
         else
           (let s2 = waitKey5 tk s1
            in Inr
              (if g_key s2 = enter_key then
                 (if length (circPts (g_input_data s2)) \<ge> 3 then
                    (let cfg_pts = cfg_ints (circPts (g_input_data s2));
                         s3 = emit (Log INFO
                                ''Adding roi_circ to config file and writing to disk (%s) ...'') s2;
                         s4 = add_cfg ''roi_circ'' (VecInt cfg_pts) s3;
                         (ok, s5) = cfg_write tk s4;
                         s6 = (if \<not> ok
                               then (emit (Log ERR ''Error writing to config file (%s)!'') s5)
                                      \<lparr>g_open := False\<rparr>
                               else s5)
                     in changeState IGNR_INIT s6)
                  else emit (Log WRN
                         ''You must select at least 3 circumference points (you have selected %d points)!'')
                         s2)
               else s2)))"

definition stage_IGNR_INIT :: "tick \<Rightarrow> ConfigGui \<Rightarrow> fault + ConfigGui" where
  "stage_IGNR_INIT tk s =
     (case (case getVVecInt (g_cfg s) ''roi_ignr'' of
              None \<Rightarrow> Inr s
            | Some cfg_polys \<Rightarrow>
                ask_keep R_INIT tk
                  (upd_data
                     (\<lambda>d. d\<lparr>ignrPts := filter (\<lambda>tmp. tmp \<noteq> [])
                                           (map (\<lambda>poly. load_pts 1 poly []) cfg_polys)\<rparr>) s)) of
        Inl f \<Rightarrow> Inl f
      | Inr s1 \<Rightarrow>
          Inr (if mode (g_input_data s1) = IGNR_INIT
               then changeState IGNR_PTS (upd_data (\<lambda>d. d\<lparr>ignrPts := []\<rparr>) s1)
               else s1))"

text \<open>\<open>IGNR_PTS\<close>, with the zoom window as in \<open>CIRC_PTS\<close>.\<close>

definition stage_IGNR_PTS :: "geometry \<Rightarrow> tick \<Rightarrow> ConfigGui \<Rightarrow> fault + ConfigGui" where
  "stage_IGNR_PTS gm tk s =
     (if \<not> createZoomROI gm (g_frame_cols s) (g_frame_rows s)
             (cursorPt (g_input_data s)) scaled_zoom_dim
      then Inl CvException
      else
        (let s2 = waitKey5 tk s; v = ignrPts (g_input_data s2) in
         Inr
           (if g_key s2 = enter_key then
              (if v = [] \<or> last v = [] then
                 (let s3 = upd_data (\<lambda>d. d\<lparr>ignrPts := (if v \<noteq> [] then butlast v else v)\<rparr>) s2;
                      cfg_polys = map cfg_ints (ignrPts (g_input_data s3));
                      s4 = emit (Log INFO
                             ''Adding roi_ignr to config file and writing to disk (%s) ...'') s3;
                      s5 = add_cfg ''roi_ignr'' (VVecInt cfg_polys) s4;
                      (ok, s6) = cfg_write tk s5;
                      s7 = (if \<not> ok
                            then (emit (Log ERR ''Error writing to config file (%s)!'') s6)
                                   \<lparr>g_open := False\<rparr>
                            else s6)
                  in changeState R_INIT s7)
               else emit (Log INFO ''New ignore region added!'') (upd_data addPoly s2))
            else s2)))"

text \<open>
  \<open>R_INIT\<close>. \<open>cfg_vec[0]\<close>, \<open>cfg_vec[1]\<close>, \<open>cfg_vec[2]\<close> are read unchecked: with fewer than
  three entries the read is out of range (\<open>Inl OutOfRange\<close>). The axes are drawn from the
  transform just loaded, before the prompt.
\<close>

definition stage_R_INIT :: "geometry \<Rightarrow> tick \<Rightarrow> ConfigGui \<Rightarrow> fault + ConfigGui" where
  "stage_R_INIT gm tk s =
     (case getStr (g_cfg s) ''c2a_src'' of
        None \<Rightarrow> Inr (if mode (g_input_data s) = R_INIT then changeState R_SLCT s else s)
      | Some src \<Rightarrow>
          (let s1 = emit (Log DBG ''Found c2a_src: %s'') (s\<lparr>g_cfg_r_src := src\<rparr>) in
           case getVecInt (g_cfg s1) src of
             None \<Rightarrow>
               Inr (changeState R_SLCT
                      (emit (Log DBG
                         ''Error reading %s from config file! Re-running configuration ...'') s1))
           | Some cfg_pts \<Rightarrow>
               (let s2 = upd_data (\<lambda>d. d\<lparr>sqrPts := load_pts 1 cfg_pts []\<rparr>) s1 in
                case getVecDbl (g_cfg s2) ''c2a_r'' of
                  None \<Rightarrow>
                    Inr (changeState R_SLCT
                           (emit (Log DBG
                              ''Error reading c2a_r from config file! Re-running configuration ...'')
                              s2))
                | Some vr \<Rightarrow>
                    if length vr < 3 then Inl OutOfRange
                    else
                      (let s3 = s2\<lparr>g_R := omegaToMatrix gm (vr ! 0, vr ! 1, vr ! 2)\<rparr> in
                       case getVecDbl (g_cfg s3) ''c2a_t'' of
                         None \<Rightarrow>
                           Inr (changeState R_SLCT
                                  (emit (Log DBG
                                     ''Error reading c2a_t from config file! Re-running configuration ...'')
                                     s3))
                       | Some vt \<Rightarrow>
                           if length vt < 3 then Inl OutOfRange
                           else if \<not> draw_axes (s3\<lparr>g_t := [vt ! 0, vt ! 1, vt ! 2]\<rparr>)
                           then Inl CvException
                           else
                             (case ask_keep EXIT tk (s3\<lparr>g_t := [vt ! 0, vt ! 1, vt ! 2]\<rparr>) of
                                Inl f \<Rightarrow> Inl f
                              | Inr s4 \<Rightarrow>
                                  Inr (if mode (g_input_data s4) = R_INIT
                                       then changeState R_SLCT s4 else s4))))))"

text \<open>
  \<open>R_SLCT\<close>. \<open>str\<close> is a fresh empty string in every pass of the outer loop, so on a stream
  that has already failed the first \<open>getline\<close> leaves it empty and method 1 is taken.
\<close>

definition stage_R_SLCT :: "ConfigGui \<Rightarrow> fault + ConfigGui" where
  "stage_R_SLCT s =
     (case (if g_cin_failed s then Some (R_XY, 0, g_stdin s, True)
            else method_prompt (g_stdin s) 0) of
        None \<Rightarrow> Inl Starved
      | Some (m, w, rest, failed) \<Rightarrow>
          Inr (changeState m
                 (s\<lparr>g_stdin := rest, g_cin_failed := failed,
                    g_out := g_out s @ replicate w (Log WRN ''Invalid input!'')\<rparr>)))"

definition updateC2ATransform :: "geometry \<Rightarrow> ref_cnrs \<Rightarrow> ConfigGui \<Rightarrow> bool \<times> ConfigGui" where
  "updateC2ATransform gm ref s =
     (if newEvent (g_input_data s) then
        (case computeRtFromSquare gm ref (sqrPts (g_input_data s)) (g_R s) (g_t s) of
           (ret, R', t') \<Rightarrow>
             (ret, upd_data (\<lambda>d. d\<lparr>newEvent := False\<rparr>) (s\<lparr>g_R := R', g_t := t'\<rparr>)))
      else (False, s))"

text \<open>
  \<open>saveC2ATransform\<close>. \<open>t.at<double>(i, 0)\<close> for \<open>i < 3\<close> is an unchecked read: out of range
  when \<open>t\<close> has fewer than three rows.
\<close>

definition saveC2ATransform :: "geometry \<Rightarrow> tick \<Rightarrow> ConfigGui \<Rightarrow> fault + (bool \<times> ConfigGui)" where
  "saveC2ATransform gm tk s =
     (let sqr_type = (case mode (g_input_data s) of
                        R_XY \<Rightarrow> ''c2a_cnrs_xy''
                      | R_YZ \<Rightarrow> ''c2a_cnrs_yz''
                      | R_XZ \<Rightarrow> ''c2a_cnrs_xz''
                      | _ \<Rightarrow> []);
          cfg_pts = cfg_ints (sqrPts (g_input_data s));
          s1 = add_cfg ''c2a_src'' (Str sqr_type)
                 (add_cfg sqr_type (VecInt cfg_pts)
                    (emit (Log INFO ''Adding %s to config file and writing to disk (%s) ...'') s))
      in case matrixToOmega gm (g_R s1) of
           (a0, a1, a2) \<Rightarrow>
             if length (g_t s1) < 3 then Inl OutOfRange
             else
               (let s2 = add_cfg ''c2a_t'' (VecDbl [g_t s1 ! 0, g_t s1 ! 1, g_t s1 ! 2])
                           (add_cfg ''c2a_r'' (VecDbl [a0, a1, a2])
                              (emit (Log INFO
                                 ''Adding c2a_r, c2a_t, and c2a_src to config file and writing to disk (%s) ...'')
                                 s1));
                    (ok, s3) = cfg_write tk s2
                in if \<not> ok then Inr (False, emit (Log ERR ''Bad write!'') s3)
                   else Inr (True, s3)))"

text \<open>\<open>R.col(2) *= -1\<close> on a matrix of three columns.\<close>

definition mirror_col2 :: "rat list \<Rightarrow> rat list" where
  "mirror_col2 R = map (\<lambda>(i, v). if i mod 3 = 2 then - v else v) (enumerate 0 R)"

definition ref_of :: "INPUT_MODE \<Rightarrow> ref_cnrs" where
  "ref_of m = (case m of R_YZ \<Rightarrow> YZ_CNRS | R_XZ \<Rightarrow> XZ_CNRS | _ \<Rightarrow> XY_CNRS)"

text \<open>
  \<open>R_XY\<close>, \<open>R_YZ\<close>, \<open>R_XZ\<close>: the three cases are the same text up to the reference corners.
  With four corners held the transform is updated and the axes are drawn from it, whether
  or not the solver has produced an \<open>R\<close>; then the zoom window is made.
\<close>

definition stage_square :: "geometry \<Rightarrow> tick \<Rightarrow> ConfigGui \<Rightarrow> fault + ConfigGui" where
  "stage_square gm tk s =
     (let s1 = (if length (sqrPts (g_input_data s)) = 4
                then snd (updateC2ATransform gm (ref_of (mode (g_input_data s))) s) else s)
      in if length (sqrPts (g_input_data s)) = 4 \<and> \<not> drawC2ATransform (g_R s1)
         then Inl CvException
         else if \<not> createZoomROI gm (g_frame_cols s1) (g_frame_rows s1)
                      (cursorPt (g_input_data s1)) scaled_zoom_dim
         then Inl CvException
         else
           (let s2 = waitKey5 tk s1
            in if g_key s2 = enter_key then
                 (if length (sqrPts (g_input_data s2)) = 4 \<and> g_R s2 \<noteq> [] then
                    (case saveC2ATransform gm tk s2 of
                       Inl f \<Rightarrow> Inl f
                     | Inr (ok, s3) \<Rightarrow>
                         Inr (changeState EXIT
                                (if \<not> ok
                                 then (emit (Log ERR
                                         ''Error writing coordinate transform to config file!'') s3)
                                        \<lparr>g_open := False\<rparr>
                                 else s3)))
                  else Inr (emit (Log WRN
                              ''You must select exactly 4 corners (you have selected %d points)!'') s2))
               else if g_key s2 = 0x66 then
                 Inr (if g_R s2 \<noteq> []
                      then upd_data (\<lambda>d. d\<lparr>newEvent := True\<rparr>) (s2\<lparr>g_R := mirror_col2 (g_R s2)\<rparr>)
                      else s2)
               else Inr s2))"

text \<open>
  \<open>R_EXT\<close>. \<open>_cfg.getStr("c2a_r", val)\<close> only asks whether the key is there (\<open>val\<close> is not
  used).
\<close>

definition stage_R_EXT :: "tick \<Rightarrow> ConfigGui \<Rightarrow> ConfigGui" where
  "stage_R_EXT tk s =
     (let s1 = (if g_cfg s ''c2a_r'' = None
                then add_cfg ''c2a_r'' (VecDbl [0, 0, 0])
                       (emit (Log INFO
                          ''Adding c2a_r to config file and writing to disk (%s) ...'') s)
                else s);
          s2 = add_cfg ''c2a_src'' (Str ''ext'') s1;
          (ok, s3) = cfg_write tk s2;
          s4 = (if \<not> ok
                then (emit (Log ERR ''Error writing to config file (%s)!'') s3)\<lparr>g_open := False\<rparr>
                else s3)
      in changeState EXIT s4)"

subsection \<open>The loop and \<open>run\<close>\<close>

text \<open>One pass of the \<open>while\<close> body: the \<open>switch\<close> on the mode.\<close>

definition step :: "geometry \<Rightarrow> tick \<Rightarrow> ConfigGui \<Rightarrow> fault + ConfigGui" where
  "step gm tk s =
     (case mode (g_input_data s) of
        CIRC_INIT \<Rightarrow> stage_CIRC_INIT gm tk s
      | CIRC_PTS \<Rightarrow> stage_CIRC_PTS gm tk s
      | IGNR_INIT \<Rightarrow> stage_IGNR_INIT tk s
      | IGNR_PTS \<Rightarrow> stage_IGNR_PTS gm tk s
      | R_INIT \<Rightarrow> stage_R_INIT gm tk s
      | R_SLCT \<Rightarrow> stage_R_SLCT s
      | R_XY \<Rightarrow> stage_square gm tk s
      | R_YZ \<Rightarrow> stage_square gm tk s
      | R_XZ \<Rightarrow> stage_square gm tk s
      | R_EXT \<Rightarrow> Inr (stage_R_EXT tk s)
      | R_MAN \<Rightarrow>
          Inr ((upd_data (\<lambda>d. d\<lparr>mode := EXIT\<rparr>)
                  (emit (Log WRN ''Unexpected state encountered!'') s))\<lparr>g_key := exit_key\<rparr>)
      | EXIT \<Rightarrow> Inr (s\<lparr>g_key := exit_key\<rparr>))"

text \<open>
  \<open>while (_open && (key != exit_key))\<close>. Each pass takes the next tick; when the ticks are
  used up and the loop would go on, the outcome is \<open>Inl Starved\<close>: the recorded input ended
  before the session did.
\<close>

fun run_loop :: "geometry \<Rightarrow> tick list \<Rightarrow> ConfigGui \<Rightarrow> fault + ConfigGui" where
  "run_loop gm [] s = (if g_open s \<and> g_key s \<noteq> exit_key then Inl Starved else Inr s)"
| "run_loop gm (tk # tks) s =
     (if g_open s \<and> g_key s \<noteq> exit_key
      then (case step gm tk s of Inl f \<Rightarrow> Inl f | Inr s' \<Rightarrow> run_loop gm tks s')
      else Inr s)"

text \<open>
  The code after the loop (lines 1031-1080): the snapshot is drawn, with the axes when
  four corners are held and \<open>cfg_r_src\<close> is a corner key (when that drawing raises, \<open>run\<close>
  ends there: \<open>Inl CvException\<close>); then it is written to the config file's name without its
  last four characters plus \<open>-configImg.png\<close>, and the final status is logged. \<open>img_ok\<close> is
  what \<open>cv::imwrite\<close> returns. The closing \<open>getchar_clean\<close> waits on the clock and is left
  out.
\<close>

definition finish :: "bool \<Rightarrow> ConfigGui \<Rightarrow> fault + (bool \<times> ConfigGui)" where
  "finish img_ok s =
     (if \<not> draw_axes s then Inl CvException
      else
        (let cfg_img_fn = take (length (g_config_fn s) - 4) (g_config_fn s) @ ''-configImg.png'';
             s1 = emit (ImWrite cfg_img_fn img_ok)
                    (emit (Log INFO ''Writing config image to disk (%s)..'') s);
             s2 = (if \<not> img_ok then emit (Log ERR ''Error writing config image to disk!'') s1
                   else s1);
             s3 = (if g_open s2 then emit (Log INFO ''Configuration complete!'') s2
                   else emit (Log WRN
                          ''Warning! There were errors and the configuration file may not have been properly updated. Please run configuration again.'')
                          s2)
         in Inr (g_open s3, emit (Log INFO ''Exiting configuration!'') s3)))"

text \<open>
  The state in which \<open>run\<close> enters its loop (lines 373-390): the locals initialised, then
  \<open>changeState(CIRC_INIT)\<close>.
\<close>

definition loop_entry :: "ConfigGui \<Rightarrow> ConfigGui" where
  "loop_entry s0 =
     changeState CIRC_INIT (s0\<lparr>g_R := [], g_t := [], g_r := - 1, g_key := 0, g_cfg_r_src := []\<rparr>)"

definition run :: "geometry \<Rightarrow> tick list \<Rightarrow> bool \<Rightarrow> ConfigGui \<Rightarrow> fault + (bool \<times> ConfigGui)" where
  "run gm tks img_ok s0 =
     (case run_loop gm tks (loop_entry s0) of
        Inl f \<Rightarrow> Inl f
      | Inr s \<Rightarrow> finish img_ok s)"

section \<open>The specification's notions, and concrete inputs\<close>

subsection \<open>Notions taken from the specification's words\<close>

text \<open>
  Points formed from consecutive coordinate pairs of a flat sequence; a trailing unpaired
  value forms no point.
\<close>

fun pairs_of :: "int list \<Rightarrow> Point2d list" where
  "pairs_of (a # b # rest) = Point2d a b # pairs_of rest"
| "pairs_of v = []"

text \<open>
  The classification of a source, the test capture of the specification (the backend
  opened and its first frame is not empty), and the resolution order in the
  specification's words.
\<close>

datatype src_class = Camera | Video | Image

definition test_capture :: "VideoCapture \<Rightarrow> bool" where
  "test_capture c =
     (isOpened c \<and> (case frames c of [] \<Rightarrow> False | (m, pos) # rest \<Rightarrow> \<not> Mat_empty m))"

definition resolve_spec :: "backend \<Rightarrow> string \<Rightarrow> src_class option" where
  "resolve_spec be tok =
     (if length tok \<le> 2 \<and>
         (case stoi tok of None \<Rightarrow> False | Some n \<Rightarrow> test_capture (camera be n))
      then Some Camera
      else if test_capture (video be tok) then Some Video
      else if \<not> Mat_empty (imread be tok) then Some Image
      else None)"

text \<open>
  The classifications the constructor announces: its \<open>Using source type\<close> lines among the
  log lines added since \<open>s0\<close>.
\<close>

definition class_of_line :: "level \<times> string \<Rightarrow> src_class list" where
  "class_of_line l =
     (if snd l = ''Using source type: camera id.'' then [Camera]
      else if snd l = ''Using source type: video file.'' then [Video]
      else if snd l = ''Using source type: image file.'' then [Image]
      else [])"

definition classes_logged :: "CVSource \<Rightarrow> CVSource \<Rightarrow> src_class list" where
  "classes_logged s0 s' = concat (map class_of_line (drop (length (s_log s0)) (s_log s')))"

text \<open>The frame after colour normalisation: a one-channel frame is converted, others kept.\<close>

definition normalised :: "imgproc \<Rightarrow> BAYER_TYPE \<Rightarrow> Mat \<Rightarrow> Mat" where
  "normalised ip b m = (if channels m = 1 then cv_cvtColor ip (bayer_code b) m else m)"

text \<open>
  Successive calls of \<open>grab\<close>, one per pair of clock readings: the outcomes in order (up to
  the first abnormal termination) and the object after the last call.
\<close>

fun grab_seq ::
  "imgproc \<Rightarrow> (rat \<times> rat) list \<Rightarrow> CVSource \<Rightarrow> (fault + Mat option) list \<times> CVSource" where
  "grab_seq ip [] s = ([], s)"
| "grab_seq ip (cl # cls) s =
     (case grab ip (fst cl) (snd cl) s of
        Inl f \<Rightarrow> ([Inl f], s)
      | Inr (r, s') \<Rightarrow> (case grab_seq ip cls s' of (rs, s'') \<Rightarrow> (Inr r # rs, s'')))"


text \<open>A sequence of left-clicks, and the modes in which clicks collect points.\<close>

definition left_clicks :: "(int \<times> int) list \<Rightarrow> INPUT_DATA \<Rightarrow> INPUT_DATA" where
  "left_clicks cs d = foldl (\<lambda>d (x, y). onMouseEvent CV_EVENT_LBUTTONUP x y d) d cs"

definition collecting :: "INPUT_MODE \<Rightarrow> bool" where
  "collecting m = (m = CIRC_PTS \<or> m = IGNR_PTS \<or> m = R_XY \<or> m = R_YZ \<or> m = R_XZ)"


subsection \<open>Concrete inputs\<close>

definition fresh_data :: "INPUT_MODE \<Rightarrow> INPUT_DATA" where
  "fresh_data m = \<lparr>mode = m, circPts = [], ignrPts = [], sqrPts = [], cursorPt = Point2d 0 0,
     newEvent = False\<rparr>"

definition gm0 :: geometry where
  "gm0 = \<lparr>circleFit_camModel = (\<lambda>pts r. 1),
          computeRtFromSquare = (\<lambda>ref pts R t. (True, [1, 0, 0, 0, 1, 0, 0, 0, 1], [0, 0, 1])),
          matrixToOmega = (\<lambda>R. (0, 0, 0)),
          omegaToMatrix = (\<lambda>w. [1, 0, 0, 0, 1, 0, 0, 0, 1]),
          clamp = (\<lambda>x lo hi. if x \<le> lo then lo else if x \<ge> hi then hi else x)\<rparr>"

definition gui0 :: "INPUT_MODE \<Rightarrow> ConfigParser \<Rightarrow> string \<Rightarrow> ConfigGui" where
  "gui0 m cfg inp =
     \<lparr>g_open = True, g_config_fn = ''config.txt'', g_cfg = cfg, g_disk = cfg,
      g_input_data = fresh_data m, g_frame_cols = 640, g_frame_rows = 480,
      g_R = [], g_t = [], g_r = - 1, g_key = 0,
      g_cfg_r_src = [], g_stdin = inp, g_cin_failed = False, g_out = []\<rparr>"

definition tick0 :: "(mouse_event \<times> int \<times> int) list \<Rightarrow> int \<Rightarrow> bool \<Rightarrow> tick" where
  "tick0 evs k ok = \<lparr>mouse = evs, keycode = k, write_ok = ok\<rparr>"

text \<open>A store whose point sequences have odd lengths.\<close>

definition cfg_odd :: ConfigParser where
  "cfg_odd = [''roi_circ'' \<mapsto> VecInt [10, 10, 50, 10, 30, 40, 7],
              ''roi_ignr'' \<mapsto> VVecInt [[1, 2, 3, 4, 5], [7]],
              ''c2a_src'' \<mapsto> Str ''c2a_cnrs_xy'',
              ''c2a_cnrs_xy'' \<mapsto> VecInt [0, 0, 4, 0, 4, 4, 0, 4, 9],
              ''c2a_r'' \<mapsto> VecDbl [0, 0, 0],
              ''c2a_t'' \<mapsto> VecDbl [0, 0, 1]]"









text \<open>Frame-source inputs: an object before construction, captures, backends, images.\<close>

definition src_init :: CVSource where
  "src_init = \<lparr>s_open = False, s_live = False, s_is_image = False, s_cap = None,
     s_frame_cap = Mat_default, s_frame_flp = Mat_default, s_width = - 1, s_height = - 1,
     s_fps = - 1, s_bayerType = BAYER_NONE, s_timestamp = - 1, s_ms_since_midnight = 0,
     s_log = []\<rparr>"

definition cap_closed :: VideoCapture where
  "cap_closed = \<lparr>isOpened = False, frames = [], props = (\<lambda>p. 0), adopts = (\<lambda>p v. None),
     calls = []\<rparr>"

definition cap_stream :: "(Mat \<times> rat) list \<Rightarrow> (cap_prop \<Rightarrow> rat) \<Rightarrow> bool \<Rightarrow> VideoCapture" where
  "cap_stream fs ps accepting = \<lparr>isOpened = True, frames = fs, props = ps,
     adopts = (\<lambda>p v. if accepting then Some v else None), calls = []\<rparr>"

definition img :: "nat \<Rightarrow> nat \<Rightarrow> nat \<Rightarrow> Mat" where
  "img r c ch = \<lparr>rows = r, cols = c, channels = ch, pix = replicate (r * c * ch) 0\<rparr>"

definition be_image :: "Mat \<Rightarrow> backend" where
  "be_image m = \<lparr>camera = (\<lambda>n. cap_closed), video = (\<lambda>f. cap_closed), imread = (\<lambda>f. m)\<rparr>"

definition be_video :: "VideoCapture \<Rightarrow> backend" where
  "be_video c = \<lparr>camera = (\<lambda>n. cap_closed), video = (\<lambda>f. c), imread = (\<lambda>f. Mat_default)\<rparr>"

definition be_camera :: "VideoCapture \<Rightarrow> backend" where
  "be_camera c = \<lparr>camera = (\<lambda>n. c), video = (\<lambda>f. cap_closed), imread = (\<lambda>f. Mat_default)\<rparr>"

text \<open>
  A video backend that reports a frame size of 240 by 2 and delivers, after a first
  proper frame, a frame flattened to one row of 480 values.
\<close>

definition be_flat :: backend where
  "be_flat = be_video (cap_stream [(img 2 240 1, 0), (img 1 480 1, 40)]
                         (\<lambda>p. if p = CAP_PROP_FRAME_HEIGHT then 2 else 240) True)"

text \<open>Stand-ins for the library's pixel operations.\<close>

definition ip0 :: imgproc where
  "ip0 = \<lparr>cv_cvtColor = (\<lambda>code m. m\<lparr>channels := 3, pix := concat (map (\<lambda>v. [v, v, v]) (pix m))\<rparr>),
          cv_flip = (\<lambda>m code. m\<lparr>pix := rev (pix m)\<rparr>)\<rparr>"

section \<open>Verified properties\<close>

subsection \<open>Facts about the mouse callback\<close>

lemma onMouseEvent_mode: "mode (onMouseEvent e x y d) = mode d"
  by (cases e; cases "mode d") (simp_all add: onMouseEvent_def Let_def)

lemma onMouseEvent_idle:
  "mode d = CIRC_INIT \<or> mode d = IGNR_INIT \<or> mode d = R_INIT \<Longrightarrow>
   circPts (onMouseEvent e x y d) = circPts d \<and> ignrPts (onMouseEvent e x y d) = ignrPts d \<and>
   sqrPts (onMouseEvent e x y d) = sqrPts d \<and> newEvent (onMouseEvent e x y d) = newEvent d"
  by (cases e) (auto simp: onMouseEvent_def)

lemma deliver_snoc:
  "deliver (evs @ [ev]) d = onMouseEvent (fst ev) (fst (snd ev)) (snd (snd ev)) (deliver evs d)"
  by (simp add: deliver_def case_prod_beta)

lemma deliver_mode: "mode (deliver evs d) = mode d"
  by (induction evs rule: rev_induct)
     (simp add: deliver_def, simp add: deliver_snoc onMouseEvent_mode)

lemma deliver_idle:
  "mode d = CIRC_INIT \<or> mode d = IGNR_INIT \<or> mode d = R_INIT \<Longrightarrow>
   circPts (deliver evs d) = circPts d \<and> ignrPts (deliver evs d) = ignrPts d \<and>
   sqrPts (deliver evs d) = sqrPts d \<and> newEvent (deliver evs d) = newEvent d"
proof (induction evs rule: rev_induct)
  case Nil
  then show ?case by (simp add: deliver_def)
next
  case (snoc ev evs)
  then show ?case
    using onMouseEvent_idle[of "deliver evs d"] by (simp add: deliver_snoc deliver_mode)
qed

lemma left_clicks_snoc:
  "left_clicks (cs @ [c]) d = onMouseEvent CV_EVENT_LBUTTONUP (fst c) (snd c) (left_clicks cs d)"
  by (simp add: left_clicks_def case_prod_beta)

lemma left_clicks_mode: "mode (left_clicks cs d) = mode d"
  by (induction cs rule: rev_induct)
     (simp add: left_clicks_def, simp add: left_clicks_snoc onMouseEvent_mode)

lemma click_then_right:
  assumes "collecting (mode d1)"
  shows "circPts (onMouseEvent CV_EVENT_RBUTTONUP x y
                    (onMouseEvent CV_EVENT_LBUTTONUP cx cy d1)) = circPts d1"
    and "sqrPts (onMouseEvent CV_EVENT_RBUTTONUP x y
                   (onMouseEvent CV_EVENT_LBUTTONUP cx cy d1)) = sqrPts d1"
    and "ignrPts (onMouseEvent CV_EVENT_RBUTTONUP x y
                    (onMouseEvent CV_EVENT_LBUTTONUP cx cy d1)) =
           (if mode d1 = IGNR_PTS \<and> ignrPts d1 = [] then [[]] else ignrPts d1)"
    and "cursorPt (onMouseEvent CV_EVENT_RBUTTONUP x y
                     (onMouseEvent CV_EVENT_LBUTTONUP cx cy d1)) = cursorPt d1"
    and "newEvent (onMouseEvent CV_EVENT_RBUTTONUP x y
                     (onMouseEvent CV_EVENT_LBUTTONUP cx cy d1))"
  using assms
  by (cases "mode d1";
      simp add: collecting_def onMouseEvent_def Let_def back_push_def back_pop_def
        butlast_append)+

subsection \<open>Claim C9: a right-click after left-clicks\<close>

text \<open>
  Claim C9, as amended. In every point-collection mode, after any left-clicks and one more
  left-click, a right-click removes the point that click appended: the circumference and
  corner lists are exactly those before the last click, the cursor and the mode are
  untouched, and the new-event flag is set. The ignore polygons too are those before the
  last click, with one exception: a polygon that the right-click empties is kept as an
  empty active polygon, so when there was no polygon before the last click one empty
  polygon remains (the points themselves are the same). A right-click when no point has
  been accumulated leaves the points as they are.
\<close>

theorem right_click_undoes_last_click:
  "collecting (mode d) \<Longrightarrow>
     (let d1 = left_clicks cs d;
          d2 = onMouseEvent CV_EVENT_RBUTTONUP x y (left_clicks (cs @ [c]) d)
      in circPts d2 = circPts d1 \<and> sqrPts d2 = sqrPts d1 \<and>
         ignrPts d2 = (if mode d = IGNR_PTS \<and> ignrPts d1 = [] then [[]] else ignrPts d1) \<and>
         concat (ignrPts d2) = concat (ignrPts d1) \<and>
         mode d2 = mode d1 \<and> cursorPt d2 = cursorPt d1 \<and> newEvent d2)
     \<and> (circPts d = [] \<longrightarrow> circPts (onMouseEvent CV_EVENT_RBUTTONUP x y d) = [])
     \<and> (sqrPts d = [] \<longrightarrow> sqrPts (onMouseEvent CV_EVENT_RBUTTONUP x y d) = [])
     \<and> (concat (ignrPts d) = [] \<longrightarrow>
          concat (ignrPts (onMouseEvent CV_EVENT_RBUTTONUP x y d)) = [])"
proof (intro conjI impI)
  assume c: "collecting (mode d)"
  have c1: "collecting (mode (left_clicks cs d))" using c by (simp add: left_clicks_mode)
  show "let d1 = left_clicks cs d;
          d2 = onMouseEvent CV_EVENT_RBUTTONUP x y (left_clicks (cs @ [c]) d)
      in circPts d2 = circPts d1 \<and> sqrPts d2 = sqrPts d1 \<and>
         ignrPts d2 = (if mode d = IGNR_PTS \<and> ignrPts d1 = [] then [[]] else ignrPts d1) \<and>
         concat (ignrPts d2) = concat (ignrPts d1) \<and>
         mode d2 = mode d1 \<and> cursorPt d2 = cursorPt d1 \<and> newEvent d2"
    using click_then_right[OF c1, of x y "fst c" "snd c"]
    by (simp add: Let_def left_clicks_snoc onMouseEvent_mode left_clicks_mode)
next
  assume "collecting (mode d)" "circPts d = []"
  then show "circPts (onMouseEvent CV_EVENT_RBUTTONUP x y d) = []"
    by (cases "mode d") (simp_all add: onMouseEvent_def)
next
  assume "collecting (mode d)" "sqrPts d = []"
  then show "sqrPts (onMouseEvent CV_EVENT_RBUTTONUP x y d) = []"
    by (cases "mode d") (simp_all add: onMouseEvent_def)
next
  assume "collecting (mode d)" and z: "concat (ignrPts d) = []"
  have "concat (butlast (ignrPts d)) = []"
    using z by (auto dest: in_set_butlastD)
  moreover have "ignrPts d \<noteq> [] \<Longrightarrow> last (ignrPts d) = []"
    using z by auto
  ultimately show "concat (ignrPts (onMouseEvent CV_EVENT_RBUTTONUP x y d)) = []"
    using z by (cases "mode d") (simp_all add: onMouseEvent_def back_pop_def)
qed

theorem right_click_undoes_last_click_witness:
  "collecting (mode (fresh_data IGNR_PTS)) \<and>
   ignrPts (onMouseEvent CV_EVENT_RBUTTONUP 0 0
      (left_clicks ([(10, 10)] @ [(50, 10)]) (fresh_data IGNR_PTS))) = [[Point2d 10 10]] \<and>
   ignrPts (left_clicks [(10, 10)] (fresh_data IGNR_PTS)) = [[Point2d 10 10]] \<and>
   circPts (fresh_data IGNR_PTS) = [] \<and> sqrPts (fresh_data IGNR_PTS) = [] \<and>
   concat (ignrPts (fresh_data IGNR_PTS)) = [] \<and>
   circPts (onMouseEvent CV_EVENT_RBUTTONUP 0 0 (fresh_data IGNR_PTS)) = [] \<and>
   sqrPts (onMouseEvent CV_EVENT_RBUTTONUP 0 0 (fresh_data IGNR_PTS)) = [] \<and>
   concat (ignrPts (onMouseEvent CV_EVENT_RBUTTONUP 0 0 (fresh_data IGNR_PTS))) = []"
proof -
  have h: "collecting (mode (fresh_data IGNR_PTS))"
    by (simp add: collecting_def fresh_data_def)
  have e: "ignrPts (left_clicks [(10, 10)] (fresh_data IGNR_PTS)) = [[Point2d 10 10]]"
    by (simp add: left_clicks_def fresh_data_def onMouseEvent_def back_push_def)
  have z: "circPts (fresh_data IGNR_PTS) = []" "sqrPts (fresh_data IGNR_PTS) = []"
    "concat (ignrPts (fresh_data IGNR_PTS)) = []"
    by (simp_all add: fresh_data_def)
  from right_click_undoes_last_click[OF h, of "[(10, 10)]" 0 0 "(50, 10)"] h e z
  show ?thesis by (simp add: Let_def)
qed

text \<open>
  The claim as written fails: in the ignore-points mode with no polygon yet, one left-click
  followed by one right-click does not restore the state before the click; an empty polygon
  is left behind.
\<close>

theorem right_click_leaves_empty_polygon:
  "ignrPts (left_clicks [] (fresh_data IGNR_PTS)) = [] \<and>
   ignrPts (onMouseEvent CV_EVENT_RBUTTONUP 0 0 (left_clicks [(5, 5)] (fresh_data IGNR_PTS)))
     = [[]] \<and>
   onMouseEvent CV_EVENT_RBUTTONUP 0 0 (left_clicks [(5, 5)] (fresh_data IGNR_PTS))
     \<noteq> left_clicks [] (fresh_data IGNR_PTS)"
  by (simp add: left_clicks_def fresh_data_def onMouseEvent_def back_push_def back_pop_def)

subsection \<open>Claim C6: a right-click in the ignore-points stage\<close>

text \<open>
  Claim C6, as amended. In the ignore-points mode a right-click removes the last point of
  the active (last) polygon and keeps that polygon, also when this empties it; when the
  active polygon is already empty the right-click deletes the polygon; with no polygon
  the polygons stay as they are. In each case only the new-event flag changes besides.
\<close>

theorem ignore_right_click:
  "mode d = IGNR_PTS \<Longrightarrow>
     (ignrPts d = polys @ [pts @ [p]] \<longrightarrow>
        onMouseEvent CV_EVENT_RBUTTONUP x y d = d\<lparr>ignrPts := polys @ [pts], newEvent := True\<rparr>) \<and>
     (ignrPts d = polys @ [[]] \<longrightarrow>
        onMouseEvent CV_EVENT_RBUTTONUP x y d = d\<lparr>ignrPts := polys, newEvent := True\<rparr>) \<and>
     (ignrPts d = [] \<longrightarrow>
        onMouseEvent CV_EVENT_RBUTTONUP x y d = d\<lparr>newEvent := True\<rparr>)"
  by (simp add: onMouseEvent_def back_pop_def)

theorem ignore_right_click_witness:
  "mode ((fresh_data IGNR_PTS)\<lparr>ignrPts := [[Point2d 1 2]] @ [[Point2d 3 4] @ [Point2d 5 6]]\<rparr>)
     = IGNR_PTS \<and>
   ignrPts (onMouseEvent CV_EVENT_RBUTTONUP 0 0
     ((fresh_data IGNR_PTS)\<lparr>ignrPts := [[Point2d 1 2]] @ [[Point2d 3 4] @ [Point2d 5 6]]\<rparr>))
     = [[Point2d 1 2], [Point2d 3 4]] \<and>
   ignrPts (onMouseEvent CV_EVENT_RBUTTONUP 0 0
     ((fresh_data IGNR_PTS)\<lparr>ignrPts := [[Point2d 1 2]] @ [[]]\<rparr>)) = [[Point2d 1 2]] \<and>
   ignrPts (fresh_data IGNR_PTS) = [] \<and>
   ignrPts (onMouseEvent CV_EVENT_RBUTTONUP 0 0 (fresh_data IGNR_PTS)) = []"
proof -
  let ?d = "(fresh_data IGNR_PTS)\<lparr>ignrPts := [[Point2d 1 2]] @ [[Point2d 3 4] @ [Point2d 5 6]]\<rparr>"
  let ?e = "(fresh_data IGNR_PTS)\<lparr>ignrPts := [[Point2d 1 2]] @ [[]]\<rparr>"
  have h: "mode ?d = IGNR_PTS" "mode ?e = IGNR_PTS" "mode (fresh_data IGNR_PTS) = IGNR_PTS"
    "ignrPts (fresh_data IGNR_PTS) = []"
    by (simp_all add: fresh_data_def)
  from ignore_right_click[OF h(1), of "[[Point2d 1 2]]" "[Point2d 3 4]" "Point2d 5 6" 0 0]
    ignore_right_click[OF h(2), of "[[Point2d 1 2]]" "[]" "Point2d 0 0" 0 0]
    ignore_right_click[OF h(3), of "[]" "[]" "Point2d 0 0" 0 0] h
  show ?thesis by simp
qed

text \<open>
  The claim as written fails: removing the only point of the only polygon leaves that
  polygon in place, empty; it is not deleted.
\<close>

theorem emptied_polygon_not_deleted:
  "ignrPts (onMouseEvent CV_EVENT_RBUTTONUP 0 0
     ((fresh_data IGNR_PTS)\<lparr>ignrPts := [[Point2d 5 5]]\<rparr>)) = [[]] \<and>
   length (ignrPts (onMouseEvent CV_EVENT_RBUTTONUP 0 0
     ((fresh_data IGNR_PTS)\<lparr>ignrPts := [[Point2d 5 5]]\<rparr>))) = 1"
  by (simp add: fresh_data_def onMouseEvent_def back_pop_def)

subsection \<open>Facts about the session's helpers\<close>

lemma changeState_fields:
  "g_cfg (changeState m s) = g_cfg s"
  "g_stdin (changeState m s) = g_stdin s"
  "g_open (changeState m s) = g_open s"
  "g_key (changeState m s) = g_key s"
  "g_disk (changeState m s) = g_disk s"
  "mode (g_input_data (changeState m s)) = m"
  "circPts (g_input_data (changeState m s)) = circPts (g_input_data s)"
  "ignrPts (g_input_data (changeState m s)) = ignrPts (g_input_data s)"
  "sqrPts (g_input_data (changeState m s)) = sqrPts (g_input_data s)"
  "newEvent (g_input_data (changeState m s))"
  "g_out (changeState m s) = g_out s @ [Log DBG ''New state: %s'']"
  by (simp_all add: changeState_def upd_data_def emit_def)

lemma ask_keep_cases:
  assumes "ask_keep nxt tk s = Inr s'"
  obtains keep w rest where
    "keep_prompt (g_stdin s) 0 = Some (keep, w, rest)"
    "s' = (if keep then changeState nxt else id)
            ((upd_data (deliver (mouse tk)) s)
               \<lparr>g_stdin := rest, g_out := g_out s @ replicate w (Log WRN ''Invalid input!'')\<rparr>)"
proof (cases "keep_prompt (g_stdin s) 0")
  case None
  with assms show ?thesis by (simp add: ask_keep_def Let_def upd_data_def)
next
  case (Some a)
  obtain keep w rest where a: "a = (keep, w, rest)" by (cases a)
  with Some assms have "s' = (if keep then changeState nxt else id)
            ((upd_data (deliver (mouse tk)) s)
               \<lparr>g_stdin := rest, g_out := g_out s @ replicate w (Log WRN ''Invalid input!'')\<rparr>)"
    by (simp add: ask_keep_def Let_def upd_data_def split: if_splits)
  with that Some a show ?thesis by blast
qed

lemma ask_keep_points:
  assumes "ask_keep nxt tk s = Inr s'"
    and "mode (g_input_data s) = CIRC_INIT \<or> mode (g_input_data s) = IGNR_INIT
         \<or> mode (g_input_data s) = R_INIT"
  shows "circPts (g_input_data s') = circPts (g_input_data s)"
    and "ignrPts (g_input_data s') = ignrPts (g_input_data s)"
    and "sqrPts (g_input_data s') = sqrPts (g_input_data s)"
    and "g_cfg s' = g_cfg s"
    and "mode (g_input_data s') = nxt \<or> mode (g_input_data s') = mode (g_input_data s)"
proof -
  from assms(1) obtain keep w rest where
    s': "s' = (if keep then changeState nxt else id)
            ((upd_data (deliver (mouse tk)) s)
               \<lparr>g_stdin := rest, g_out := g_out s @ replicate w (Log WRN ''Invalid input!'')\<rparr>)"
    by (rule ask_keep_cases)
  note d = deliver_idle[OF assms(2), of "mouse tk"] deliver_mode[of "mouse tk" "g_input_data s"]
  show "circPts (g_input_data s') = circPts (g_input_data s)"
    using d by (simp add: s' changeState_fields upd_data_def)
  show "ignrPts (g_input_data s') = ignrPts (g_input_data s)"
    using d by (simp add: s' changeState_fields upd_data_def)
  show "sqrPts (g_input_data s') = sqrPts (g_input_data s)"
    using d by (simp add: s' changeState_fields upd_data_def)
  show "g_cfg s' = g_cfg s"
    by (simp add: s' changeState_fields upd_data_def)
  show "mode (g_input_data s') = nxt \<or> mode (g_input_data s') = mode (g_input_data s)"
    using d by (simp add: s' changeState_fields upd_data_def)
qed

subsection \<open>Claim C7: the keep-existing prompt\<close>

text \<open>
  Claim C7, as amended. At every keep-existing prompt (the three prompts are \<open>ask_keep\<close>
  with the state to advance to), a bare Enter and \<open>y\<close> or \<open>Y\<close> are equivalent accept signals:
  each advances to the next state. After \<open>y\<close> or \<open>Y\<close> exactly one further character is taken
  from the input (if there is one); after a bare Enter none is.
\<close>

theorem keep_prompt_accepts:
  "g_stdin s = c # rest \<Longrightarrow> c = CHR ''y'' \<or> c = CHR ''Y'' \<or> c = CHR 0x0A \<Longrightarrow>
   ask_keep nxt tk s =
     Inr (changeState nxt
            ((upd_data (deliver (mouse tk)) s)
               \<lparr>g_stdin := (if c = CHR 0x0A then rest else drop 1 rest)\<rparr>))"
  by (cases rest) (auto simp: ask_keep_def Let_def upd_data_def getchar_def)

theorem keep_prompt_accepts_witness:
  "g_stdin (gui0 CIRC_INIT Map.empty [CHR ''y'', CHR 0x0A, CHR ''q''])
     = CHR ''y'' # [CHR 0x0A, CHR ''q''] \<and>
   (\<exists>s'. ask_keep IGNR_INIT (tick0 [] (- 1) True)
              (gui0 CIRC_INIT Map.empty [CHR ''y'', CHR 0x0A, CHR ''q'']) = Inr s'
           \<and> g_stdin s' = [CHR ''q''] \<and> mode (g_input_data s') = IGNR_INIT) \<and>
   g_stdin (gui0 CIRC_INIT Map.empty [CHR 0x0A, CHR ''q'']) = CHR 0x0A # [CHR ''q''] \<and>
   (\<exists>s'. ask_keep IGNR_INIT (tick0 [] (- 1) True)
              (gui0 CIRC_INIT Map.empty [CHR 0x0A, CHR ''q'']) = Inr s'
           \<and> g_stdin s' = [CHR ''q''] \<and> mode (g_input_data s') = IGNR_INIT)"
proof -
  have h: "g_stdin (gui0 CIRC_INIT Map.empty [CHR ''y'', CHR 0x0A, CHR ''q''])
            = CHR ''y'' # [CHR 0x0A, CHR ''q'']"
    "g_stdin (gui0 CIRC_INIT Map.empty [CHR 0x0A, CHR ''q'']) = CHR 0x0A # [CHR ''q'']"
    by (simp_all add: gui0_def)
  have c: "CHR ''y'' = CHR ''y'' \<or> CHR ''y'' = CHR ''Y'' \<or> CHR ''y'' = CHR 0x0A"
    "CHR 0x0A = CHR ''y'' \<or> CHR 0x0A = CHR ''Y'' \<or> CHR 0x0A = CHR 0x0A"
    by simp_all
  from keep_prompt_accepts[OF h(1) c(1), of IGNR_INIT "tick0 [] (- 1) True"]
    keep_prompt_accepts[OF h(2) c(2), of IGNR_INIT "tick0 [] (- 1) True"] h
  show ?thesis by (simp add: changeState_fields)
qed

text \<open>
  The claim as written fails for the bare Enter: the character after it is still in the
  input, whereas after \<open>y\<close> the newline that follows has been taken.
\<close>

theorem bare_enter_consumes_nothing_more:
  "keep_prompt [CHR 0x0A, CHR ''q''] 0 = Some (True, 0, [CHR ''q'']) \<and>
   keep_prompt [CHR ''y'', CHR 0x0A, CHR ''q''] 0 = Some (True, 0, [CHR ''q''])"
  by (simp add: getchar_def)

subsection \<open>Claim C10: loading persisted points\<close>

lemma load_pts_odd:
  "load_pts (2 * k + 1) v pts = pts @ pairs_of (drop (2 * k) v)"
proof (induction "length v - 2 * k" arbitrary: k pts rule: less_induct)
  case less
  show ?case
  proof (cases "2 * k + 1 < length v")
    case True
    then obtain a b rest where d: "drop (2 * k) v = a # b # rest"
      by (metis Cons_nth_drop_Suc Suc_eq_plus1 Suc_lessD)
    have a: "v ! (2 * k) = a" and b: "v ! (2 * k + 1) = b"
      using d True by (metis Cons_nth_drop_Suc Suc_eq_plus1 Suc_lessD list.inject nth_via_drop)+
    have "drop (Suc (Suc (2 * k))) v = rest"
      using d by (metis drop_Suc list.sel(3) tl_drop)
    hence r: "drop (2 * (k + 1)) v = rest" by simp
    have "load_pts (2 * k + 1) v pts = load_pts (2 * (k + 1) + 1) v (pts @ [Point2d a b])"
      using True a b by (subst load_pts.simps) simp
    also have "\<dots> = (pts @ [Point2d a b]) @ pairs_of (drop (2 * (k + 1)) v)"
      using True by (intro less) auto
    finally show ?thesis using d r by simp
  next
    case False
    then have "length (drop (2 * k) v) \<le> 1" by simp
    then have "pairs_of (drop (2 * k) v) = []"
      by (cases "drop (2 * k) v" rule: pairs_of.cases) simp_all
    then show ?thesis using False by (subst load_pts.simps) simp
  qed
qed

lemma load_pts_pairs: "load_pts (Suc 0) v [] = pairs_of v" "load_pts 1 v [] = pairs_of v"
  using load_pts_odd[of 0 v "[]"] by simp_all

lemma length_pairs_of: "length (pairs_of v) = length v div 2"
  by (induction v rule: pairs_of.induct) simp_all

lemma pairs_of_take_even: "pairs_of (take (2 * (length v div 2)) v) = pairs_of v"
  by (induction v rule: pairs_of.induct) simp_all

lemma circ_site:
  assumes r: "stage_CIRC_INIT gm tk s = Inr s'" and g: "getVecInt (g_cfg s) ''roi_circ'' = Some v"
    and m: "mode (g_input_data s) = CIRC_INIT" and m': "mode (g_input_data s') = IGNR_INIT"
  shows "circPts (g_input_data s') = pairs_of v"
proof -
  define s1 where "s1 = upd_data (\<lambda>d. d\<lparr>circPts := load_pts 1 v []\<rparr>) s"
  define s2 where "s2 = s1\<lparr>g_r := circleFit_camModel gm (circPts (g_input_data s1)) (g_r s1)\<rparr>"
  have m2: "mode (g_input_data s2) = CIRC_INIT" "mode (g_input_data s1) = CIRC_INIT"
    using m by (simp_all add: s1_def s2_def upd_data_def)
  have c2: "circPts (g_input_data s2) = pairs_of v"
    by (simp add: s1_def s2_def upd_data_def load_pts_pairs)
  define inner where "inner = (if length (circPts (g_input_data s1)) \<ge> 3 then
                   (if g_r s2 > 0 then ask_keep IGNR_INIT tk s2 else Inr s2)
                 else Inr s1)"
  have st: "stage_CIRC_INIT gm tk s = (case inner of Inl f \<Rightarrow> Inl f
      | Inr s3 \<Rightarrow> Inr (if mode (g_input_data s3) = CIRC_INIT
               then changeState CIRC_PTS (upd_data (\<lambda>d. d\<lparr>circPts := []\<rparr>) s3) else s3))"
    unfolding stage_CIRC_INIT_def inner_def s2_def s1_def using g by (simp add: Let_def)
  from r st obtain s3 where i: "inner = Inr s3"
    and e: "s' = (if mode (g_input_data s3) = CIRC_INIT
               then changeState CIRC_PTS (upd_data (\<lambda>d. d\<lparr>circPts := []\<rparr>) s3) else s3)"
    by (cases inner) auto
  have n: "mode (g_input_data s3) \<noteq> CIRC_INIT"
    using e m' by (auto simp: changeState_fields)
  hence e': "s' = s3" using e by simp
  have "ask_keep IGNR_INIT tk s2 = Inr s3"
    using i n m2 unfolding inner_def by (auto split: if_splits)
  from ask_keep_points(1)[OF this] m2 c2 e' show ?thesis by simp
qed

lemma ignr_site:
  assumes r: "stage_IGNR_INIT tk s = Inr s'"
    and g: "getVVecInt (g_cfg s) ''roi_ignr'' = Some polys"
    and m: "mode (g_input_data s) = IGNR_INIT" and m': "mode (g_input_data s') = R_INIT"
  shows "ignrPts (g_input_data s') = filter (\<lambda>tmp. tmp \<noteq> []) (map pairs_of polys)"
proof -
  define s1 where "s1 = upd_data
                     (\<lambda>d. d\<lparr>ignrPts := filter (\<lambda>tmp. tmp \<noteq> [])
                                           (map (\<lambda>poly. load_pts 1 poly []) polys)\<rparr>) s"
  have m1: "mode (g_input_data s1) = IGNR_INIT"
    using m by (simp add: s1_def upd_data_def)
  have c1: "ignrPts (g_input_data s1) = filter (\<lambda>tmp. tmp \<noteq> []) (map pairs_of polys)"
    by (simp add: s1_def upd_data_def load_pts_pairs)
  have st: "stage_IGNR_INIT tk s = (case ask_keep R_INIT tk s1 of Inl f \<Rightarrow> Inl f
      | Inr s3 \<Rightarrow> Inr (if mode (g_input_data s3) = IGNR_INIT
               then changeState IGNR_PTS (upd_data (\<lambda>d. d\<lparr>ignrPts := []\<rparr>) s3) else s3))"
    unfolding stage_IGNR_INIT_def s1_def using g by simp
  from r st obtain s3 where i: "ask_keep R_INIT tk s1 = Inr s3"
    and e: "s' = (if mode (g_input_data s3) = IGNR_INIT
               then changeState IGNR_PTS (upd_data (\<lambda>d. d\<lparr>ignrPts := []\<rparr>) s3) else s3)"
    by (cases "ask_keep R_INIT tk s1") auto
  have "mode (g_input_data s3) \<noteq> IGNR_INIT"
    using e m' by (auto simp: changeState_fields)
  hence "s' = s3" using e by simp
  with ask_keep_points(2)[OF i] m1 c1 show ?thesis by simp
qed

lemma sqr_site:
  assumes r: "stage_R_INIT gm tk s = Inr s'" and g: "getStr (g_cfg s) ''c2a_src'' = Some src"
    and v: "getVecInt (g_cfg s) src = Some v" and m: "mode (g_input_data s) = R_INIT"
  shows "sqrPts (g_input_data s') = pairs_of v"
proof -
  let ?s1 = "emit (Log DBG ''Found c2a_src: %s'') (s\<lparr>g_cfg_r_src := src\<rparr>)"
  let ?s2 = "upd_data (\<lambda>d. d\<lparr>sqrPts := load_pts 1 v []\<rparr>) ?s1"
  have c2: "sqrPts (g_input_data ?s2) = pairs_of v" "mode (g_input_data ?s2) = R_INIT"
    using m by (simp_all add: upd_data_def emit_def load_pts_pairs)
  have v1: "getVecInt (g_cfg ?s1) src = Some v" using v by (simp add: emit_def)
  show ?thesis
  proof (cases "getVecDbl (g_cfg ?s2) ''c2a_r''")
    case None
    with r g v1 have "s' = changeState R_SLCT (emit (Log DBG
                              ''Error reading c2a_r from config file! Re-running configuration ...'')
                              ?s2)"
      unfolding stage_R_INIT_def by (simp add: Let_def)
    then show ?thesis using c2 by (simp add: changeState_fields emit_def)
  next
    case (Some vr)
    note vr = this
    let ?s3 = "?s2\<lparr>g_R := omegaToMatrix gm (vr ! 0, vr ! 1, vr ! 2)\<rparr>"
    have c3: "sqrPts (g_input_data ?s3) = pairs_of v" "mode (g_input_data ?s3) = R_INIT"
      using c2 by simp_all
    have l: "\<not> length vr < 3" using r g v1 vr
      unfolding stage_R_INIT_def by (auto simp: Let_def)
    show ?thesis
    proof (cases "getVecDbl (g_cfg ?s3) ''c2a_t''")
      case None
      with r g v1 vr l have "s' = changeState R_SLCT (emit (Log DBG
                                     ''Error reading c2a_t from config file! Re-running configuration ...'')
                                     ?s3)"
        unfolding stage_R_INIT_def by (simp add: Let_def)
      then show ?thesis using c3 by (simp add: changeState_fields emit_def)
    next
      case (Some vt)
      let ?s4 = "?s3\<lparr>g_t := [vt ! 0, vt ! 1, vt ! 2]\<rparr>"
      have c4: "sqrPts (g_input_data ?s4) = pairs_of v" "mode (g_input_data ?s4) = R_INIT"
        using c3 by simp_all
      have lt: "\<not> length vt < 3" using r g v1 vr l Some
        unfolding stage_R_INIT_def by (auto simp: Let_def)
      have da: "draw_axes ?s4" using r g v1 vr l Some lt
        unfolding stage_R_INIT_def by (auto simp: Let_def split: if_splits)
      from r g v1 vr l Some lt da obtain s5 where a: "ask_keep EXIT tk ?s4 = Inr s5"
        and e: "s' = (if mode (g_input_data s5) = R_INIT then changeState R_SLCT s5 else s5)"
        unfolding stage_R_INIT_def
        by (cases "ask_keep EXIT tk ?s4") (auto simp: Let_def split: if_splits)
      from ask_keep_points(3)[OF a] c4 have "sqrPts (g_input_data s5) = pairs_of v" by simp
      then show ?thesis using e by (simp add: changeState_fields)
    qed
  qed
qed

text \<open>
  Claim C10. The loading loop forms the points from the consecutive coordinate pairs of
  the flat sequence; there are as many points as whole pairs, and an odd-length sequence
  gives the same points as the sequence without its last value. This is what the three
  stages end up with: \<open>CIRC_INIT\<close> when the circumference points are kept, \<open>IGNR_INIT\<close> when
  the polygons are kept (polygons that give no point are skipped), and \<open>R_INIT\<close> whenever
  it returns.
\<close>

theorem load_points_pairs:
  "load_pts 1 v [] = pairs_of v \<and> length (load_pts 1 v []) = length v div 2 \<and>
   load_pts 1 (take (2 * (length v div 2)) v) [] = load_pts 1 v [] \<and>
   (stage_CIRC_INIT gm tk s = Inr s' \<longrightarrow> getVecInt (g_cfg s) ''roi_circ'' = Some v \<longrightarrow>
      mode (g_input_data s) = CIRC_INIT \<longrightarrow> mode (g_input_data s') = IGNR_INIT \<longrightarrow>
      circPts (g_input_data s') = pairs_of v) \<and>
   (stage_IGNR_INIT tk s = Inr s' \<longrightarrow> getVVecInt (g_cfg s) ''roi_ignr'' = Some polys \<longrightarrow>
      mode (g_input_data s) = IGNR_INIT \<longrightarrow> mode (g_input_data s') = R_INIT \<longrightarrow>
      ignrPts (g_input_data s') = filter (\<lambda>tmp. tmp \<noteq> []) (map pairs_of polys)) \<and>
   (stage_R_INIT gm tk s = Inr s' \<longrightarrow> getStr (g_cfg s) ''c2a_src'' = Some src \<longrightarrow>
      getVecInt (g_cfg s) src = Some v \<longrightarrow> mode (g_input_data s) = R_INIT \<longrightarrow>
      sqrPts (g_input_data s') = pairs_of v)"
  using circ_site[of gm tk s s' v] ignr_site[of tk s s' polys] sqr_site[of gm tk s s' src v]
  by (simp add: load_pts_pairs length_pairs_of pairs_of_take_even)

lemma cfg_odd_get:
  "getVecInt cfg_odd ''roi_circ'' = Some [10, 10, 50, 10, 30, 40, 7]"
  "getVVecInt cfg_odd ''roi_ignr'' = Some [[1, 2, 3, 4, 5], [7]]"
  "getStr cfg_odd ''c2a_src'' = Some ''c2a_cnrs_xy''"
  "getVecInt cfg_odd ''c2a_cnrs_xy'' = Some [0, 0, 4, 0, 4, 4, 0, 4, 9]"
  "getVecDbl cfg_odd ''c2a_r'' = Some [0, 0, 0]"
  "getVecDbl cfg_odd ''c2a_t'' = Some [0, 0, 1]"
  by (simp_all add: cfg_odd_def getVecInt_def getVVecInt_def getStr_def getVecDbl_def)

lemma gui0_fields:
  "g_cfg (gui0 m cfg inp) = cfg" "g_stdin (gui0 m cfg inp) = inp"
  "mode (g_input_data (gui0 m cfg inp)) = m" "g_open (gui0 m cfg inp)"
  "g_out (gui0 m cfg inp) = []" "g_key (gui0 m cfg inp) = 0"
  "circPts (g_input_data (gui0 m cfg inp)) = []"
  "ignrPts (g_input_data (gui0 m cfg inp)) = []"
  "sqrPts (g_input_data (gui0 m cfg inp)) = []"
  by (simp_all add: gui0_def fresh_data_def)

lemma ex1: "\<exists>s'. stage_CIRC_INIT gm0 (tick0 [] (- 1) True)
                (gui0 CIRC_INIT cfg_odd [CHR ''y'', CHR 0x0A]) = Inr s' \<and>
             mode (g_input_data s') = IGNR_INIT"
  by (simp add: stage_CIRC_INIT_def cfg_odd_get gui0_fields Let_def upd_data_def load_pts_pairs
        Point2d_def gm0_def ask_keep_def tick0_def deliver_def getchar_def changeState_fields)

lemma ex2: "\<exists>s'. stage_IGNR_INIT (tick0 [] (- 1) True)
                (gui0 IGNR_INIT cfg_odd [CHR 0x0A]) = Inr s' \<and>
             mode (g_input_data s') = R_INIT"
  by (simp add: stage_IGNR_INIT_def cfg_odd_get gui0_fields Let_def upd_data_def load_pts_pairs
        Point2d_def gm0_def ask_keep_def tick0_def deliver_def getchar_def changeState_fields)

lemma ex3: "\<exists>s'. stage_R_INIT gm0 (tick0 [] (- 1) True)
                (gui0 R_INIT cfg_odd [CHR ''n'', CHR 0x0A]) = Inr s'"
  by (simp add: stage_R_INIT_def cfg_odd_get gui0_fields Let_def upd_data_def load_pts_pairs
        Point2d_def gm0_def ask_keep_def tick0_def deliver_def getchar_def changeState_fields emit_def
        draw_axes_def drawC2ATransform_def)

theorem load_points_pairs_witness:
  "(\<exists>s'. stage_CIRC_INIT gm0 (tick0 [] (- 1) True)
           (gui0 CIRC_INIT cfg_odd [CHR ''y'', CHR 0x0A]) = Inr s' \<and>
         circPts (g_input_data s') = [Point2d 10 10, Point2d 50 10, Point2d 30 40]) \<and>
   (\<exists>s'. stage_IGNR_INIT (tick0 [] (- 1) True) (gui0 IGNR_INIT cfg_odd [CHR 0x0A]) = Inr s' \<and>
         ignrPts (g_input_data s') = [[Point2d 1 2, Point2d 3 4]]) \<and>
   (\<exists>s'. stage_R_INIT gm0 (tick0 [] (- 1) True)
           (gui0 R_INIT cfg_odd [CHR ''n'', CHR 0x0A]) = Inr s' \<and>
         sqrPts (g_input_data s') = [Point2d 0 0, Point2d 4 0, Point2d 4 4, Point2d 0 4])"
proof (intro conjI)
  from ex1 obtain s' where a: "stage_CIRC_INIT gm0 (tick0 [] (- 1) True)
                (gui0 CIRC_INIT cfg_odd [CHR ''y'', CHR 0x0A]) = Inr s'"
    "mode (g_input_data s') = IGNR_INIT" by blast
  from load_points_pairs[of "[10, 10, 50, 10, 30, 40, 7]" gm0 "tick0 [] (- 1) True"
      "gui0 CIRC_INIT cfg_odd [CHR ''y'', CHR 0x0A]" s'] a
  have "circPts (g_input_data s') = pairs_of [10, 10, 50, 10, 30, 40, 7]"
    by (simp add: cfg_odd_get gui0_fields)
  with a show "\<exists>s'. stage_CIRC_INIT gm0 (tick0 [] (- 1) True)
           (gui0 CIRC_INIT cfg_odd [CHR ''y'', CHR 0x0A]) = Inr s' \<and>
         circPts (g_input_data s') = [Point2d 10 10, Point2d 50 10, Point2d 30 40]"
    by simp
next
  from ex2 obtain s' where a: "stage_IGNR_INIT (tick0 [] (- 1) True)
                (gui0 IGNR_INIT cfg_odd [CHR 0x0A]) = Inr s'"
    "mode (g_input_data s') = R_INIT" by blast
  from load_points_pairs[of _ _ "tick0 [] (- 1) True"
      "gui0 IGNR_INIT cfg_odd [CHR 0x0A]" s' "[[1, 2, 3, 4, 5], [7]]"] a
  have "ignrPts (g_input_data s') = filter (\<lambda>tmp. tmp \<noteq> []) (map pairs_of [[1, 2, 3, 4, 5], [7]])"
    by (simp add: cfg_odd_get gui0_fields)
  with a show "\<exists>s'. stage_IGNR_INIT (tick0 [] (- 1) True) (gui0 IGNR_INIT cfg_odd [CHR 0x0A]) = Inr s' \<and>
         ignrPts (g_input_data s') = [[Point2d 1 2, Point2d 3 4]]"
    by simp
next
  from ex3 obtain s' where a: "stage_R_INIT gm0 (tick0 [] (- 1) True)
                (gui0 R_INIT cfg_odd [CHR ''n'', CHR 0x0A]) = Inr s'" by blast
  from load_points_pairs[of "[0, 0, 4, 0, 4, 4, 0, 4, 9]" gm0 "tick0 [] (- 1) True"
      "gui0 R_INIT cfg_odd [CHR ''n'', CHR 0x0A]" s' _ "''c2a_cnrs_xy''"] a
  have "sqrPts (g_input_data s') = pairs_of [0, 0, 4, 0, 4, 4, 0, 4, 9]"
    by (simp add: cfg_odd_get gui0_fields)
  with a show "\<exists>s'. stage_R_INIT gm0 (tick0 [] (- 1) True)
           (gui0 R_INIT cfg_odd [CHR ''n'', CHR 0x0A]) = Inr s' \<and>
         sqrPts (g_input_data s') = [Point2d 0 0, Point2d 4 0, Point2d 4 4, Point2d 0 4]"
    by simp
qed

subsection \<open>Claim C2: the constructor's ordered trials\<close>

lemma logline_fields:
  "s_log (logline l msg s) = s_log s @ [(l, msg)]"
  "s_open (logline l msg s) = s_open s"
  "s_live (logline l msg s) = s_live s"
  "s_is_image (logline l msg s) = s_is_image s"
  "s_cap (logline l msg s) = s_cap s"
  "s_frame_cap (logline l msg s) = s_frame_cap s"
  "s_fps (logline l msg s) = s_fps s"
  "s_bayerType (logline l msg s) = s_bayerType s"
  "s_height (logline l msg s) = s_height s"
  "s_width (logline l msg s) = s_width s"
  by (simp_all add: logline_def)

lemma read_empty_iff:
  "isOpened c \<Longrightarrow> Mat_empty (snd (fst (cap_read c))) = (\<not> test_capture c)"
  by (auto simp: cap_read_def test_capture_def Let_def Mat_empty_def Mat_default_def
      split: list.splits)

lemma trial_camera_result:
  assumes r: "trial_camera be tok s = (ok, s1)"
  shows "ok = (length tok \<le> 2 \<and>
         (case stoi tok of None \<Rightarrow> False | Some n \<Rightarrow> test_capture (camera be n))) \<and>
   s_log s1 = s_log s @ (DBG, ''Trying source as camera id...'')
                # (if ok then [(INFO, ''Using source type: camera id.'')] else []) \<and>
   s_open s1 = (ok \<or> s_open s) \<and> s_live s1 = (ok \<or> s_live s) \<and>
   s_is_image s1 = s_is_image s \<and> s_frame_cap s1 = s_frame_cap s \<and>
   (ok \<longrightarrow> s_cap s1 \<noteq> None)"
proof (cases "length tok > 2")
  case True
  with r show ?thesis by (auto simp: trial_camera_def Let_def logline_fields)
next
  case short: False
  show ?thesis
  proof (cases "stoi tok")
    case None
    with r short show ?thesis by (auto simp: trial_camera_def Let_def logline_fields)
  next
    case (Some n)
    show ?thesis
    proof (cases "isOpened (camera be n)")
      case False
      with r short Some show ?thesis
        by (auto simp: trial_camera_def Let_def logline_fields test_capture_def)
    next
      case True
      from read_empty_iff[OF True] r short Some True show ?thesis
        by (cases "cap_read (camera be n)")
           (auto simp: trial_camera_def Let_def logline_fields split: if_splits)
    qed
  qed
qed

lemma trial_video_result:
  "trial_video be tok s = (ok, s1) \<Longrightarrow>
   ok = test_capture (video be tok) \<and>
   s_log s1 = s_log s @ (DBG, ''Trying source as video file...'')
                # (if ok then [(INFO, ''Using source type: video file.'')] else []) \<and>
   s_open s1 = (ok \<or> s_open s) \<and> s_live s1 = (\<not> ok \<and> s_live s) \<and>
   s_is_image s1 = s_is_image s \<and> s_frame_cap s1 = s_frame_cap s \<and> s_cap s1 \<noteq> None"
proof (cases "isOpened (video be tok)")
  case False
  assume "trial_video be tok s = (ok, s1)"
  with False show ?thesis
    by (auto simp: trial_video_def Let_def logline_fields test_capture_def)
next
  case True
  assume r: "trial_video be tok s = (ok, s1)"
  from read_empty_iff[OF True] r True show ?thesis
    by (cases "cap_read (video be tok)")
       (auto simp: trial_video_def Let_def logline_fields split: if_splits)
qed

lemma trial_image_result:
  "trial_image be tok s = (ok, s1) \<Longrightarrow>
   ok = (\<not> Mat_empty (imread be tok)) \<and>
   s_log s1 = s_log s @ (DBG, ''Trying source as image file...'')
                # (if ok then [(INFO, ''Using source type: image file.'')] else []) \<and>
   s_open s1 = (ok \<or> s_open s) \<and> s_live s1 = (\<not> ok \<and> s_live s) \<and>
   s_is_image s1 = (ok \<or> s_is_image s) \<and> s_frame_cap s1 = imread be tok \<and>
   s_cap s1 = s_cap s"
  by (auto simp: trial_image_def Let_def logline_fields split: if_splits)

lemma getFPS_fields:
  "s_log (snd (getFPS s)) = s_log s" "s_open (snd (getFPS s)) = s_open s"
  "s_live (snd (getFPS s)) = s_live s" "s_is_image (snd (getFPS s)) = s_is_image s"
  "s_frame_cap (snd (getFPS s)) = s_frame_cap s"
  "(s_cap (snd (getFPS s)) = None) = (s_cap s = None)"
  by (auto simp: getFPS_def cap_get_def split: option.splits)

lemma init_dims_fields:
  "s_open (init_dims s) = s_open s" "s_live (init_dims s) = s_live s"
  "s_is_image (init_dims s) = s_is_image s" "s_frame_cap (init_dims s) = s_frame_cap s"
  "(s_cap (init_dims s) = None) = (s_cap s = None)"
  "\<exists>msg. s_log (init_dims s) = s_log s @ [(INFO, msg)] \<and> class_of_line (INFO, msg) = []"
proof -
  define s1 where "s1 = (if s_is_image s
                then s\<lparr>s_width := int (cols (s_frame_cap s)),
                       s_height := int (rows (s_frame_cap s))\<rparr>
                else (case s_cap s of
                        None \<Rightarrow> s
                      | Some c \<Rightarrow>
                          (let (w, c1) = cap_get CAP_PROP_FRAME_WIDTH c;
                               (h, c2) = cap_get CAP_PROP_FRAME_HEIGHT c1
                           in s\<lparr>s_width := static_cast_int w, s_height := static_cast_int h,
                                s_cap := Some c2\<rparr>)))"
  have f1: "s_open s1 = s_open s" "s_live s1 = s_live s" "s_is_image s1 = s_is_image s"
    "s_frame_cap s1 = s_frame_cap s" "s_log s1 = s_log s" "(s_cap s1 = None) = (s_cap s = None)"
    by (auto simp: s1_def cap_get_def Let_def split: option.splits)
  have e: "init_dims s = (if s_live s1
         then (let (f, s2) = getFPS s1
               in logline INFO ''OpenCV camera source initialised (%dx%d @ %.3f fps)!''
                    (s2\<lparr>s_fps := f\<rparr>))
         else if s_is_image s1
         then logline INFO ''OpenCV image source initialised (%dx%d)!'' s1
         else logline INFO ''OpenCV video source initialised (%dx%d)!'' s1)"
    unfolding init_dims_def s1_def Let_def ..
  show "s_open (init_dims s) = s_open s" "s_live (init_dims s) = s_live s"
    "s_is_image (init_dims s) = s_is_image s" "s_frame_cap (init_dims s) = s_frame_cap s"
    "(s_cap (init_dims s) = None) = (s_cap s = None)"
    using f1 getFPS_fields[of s1]
    by (simp_all add: e case_prod_beta logline_fields)
  show "\<exists>msg. s_log (init_dims s) = s_log s @ [(INFO, msg)] \<and> class_of_line (INFO, msg) = []"
    using f1 getFPS_fields[of s1]
    by (simp add: e case_prod_beta logline_fields class_of_line_def)
qed

lemma class_of_line_simps:
  "class_of_line (DBG, ''Source is: %s'') = []"
  "class_of_line (DBG, ''Trying source as camera id...'') = []"
  "class_of_line (DBG, ''Trying source as video file...'') = []"
  "class_of_line (DBG, ''Trying source as image file...'') = []"
  "class_of_line (ERR, ''Could not interpret source type (%s)!'') = []"
  "class_of_line (INFO, ''Using source type: camera id.'') = [Camera]"
  "class_of_line (INFO, ''Using source type: video file.'') = [Video]"
  "class_of_line (INFO, ''Using source type: image file.'') = [Image]"
  by (simp_all add: class_of_line_def)

lemma classes_logged_append:
  "s_log s' = s_log s0 @ ls \<Longrightarrow> classes_logged s0 s' = concat (map class_of_line ls)"
  by (simp add: classes_logged_def)

lemma ctor_outcome:
  fixes be s0 tok
  defines "s' \<equiv> CVSource_ctor be s0 tok" and "r \<equiv> resolve_spec be tok"
  shows "classes_logged s0 s' = (case r of None \<Rightarrow> [] | Some c \<Rightarrow> [c])"
    and "s_open s' = (r \<noteq> None)"
    and "s_is_image s' = (r = Some Image)"
    and "s_live s' = (if r = None then s_live s0 else r = Some Camera)"
    and "r = Some Image \<Longrightarrow> s_cap s' \<noteq> None \<and> s_frame_cap s' = imread be tok"
proof -
  define s where "s = logline DBG ''Source is: %s'' (s0\<lparr>s_is_image := False\<rparr>)"
  obtain ok1 s1 where t1: "trial_camera be tok s = (ok1, s1)" by fastforce
  obtain ok2 s2 where t2: "trial_video be tok s1 = (ok2, s2)" by fastforce
  obtain ok3 s3 where t3: "trial_image be tok s2 = (ok3, s3)" by fastforce
  define s4 where "s4 = (logline ERR ''Could not interpret source type (%s)!'' s3)\<lparr>s_open := False\<rparr>"
  define sf where "sf = (if ok1 then s1 else if ok2 then s2 else if ok3 then s3 else s4)"
  have ctor: "s' = (if s_open sf then init_dims sf else sf)"
    unfolding s'_def CVSource_ctor_def s_def[symmetric] sf_def s4_def
    by (simp add: t1 t2 t3 Let_def)
  note f1 = trial_camera_result[OF t1]
  note f2 = trial_video_result[OF t2]
  note f3 = trial_image_result[OF t3]
  have s: "s_log s = s_log s0 @ [(DBG, ''Source is: %s'')]" "s_live s = s_live s0"
    "\<not> s_is_image s"
    by (simp_all add: s_def logline_fields)
  have rr: "r = (if ok1 then Some Camera else if ok2 then Some Video
                 else if ok3 then Some Image else None)"
    using f1 f2 f3 by (simp add: r_def resolve_spec_def)
  have op: "s_open sf = (ok1 \<or> ok2 \<or> ok3)"
    using f1 f2 f3 by (auto simp: sf_def s4_def)
  have lv: "s_live sf = (if ok1 \<or> ok2 \<or> ok3 then ok1 else s_live s0)"
    using f1 f2 f3 s by (auto simp: sf_def s4_def logline_fields)
  have im: "s_is_image sf = (\<not> ok1 \<and> \<not> ok2 \<and> ok3)"
    using f1 f2 f3 s by (auto simp: sf_def s4_def logline_fields)
  have cp: "\<not> ok1 \<Longrightarrow> \<not> ok2 \<Longrightarrow> ok3 \<Longrightarrow> s_cap sf \<noteq> None \<and> s_frame_cap sf = imread be tok"
    using f2 f3 by (simp add: sf_def)
  obtain ls where lg: "s_log sf = s_log s0 @ ls"
    and cl: "concat (map class_of_line ls) = (case r of None \<Rightarrow> [] | Some c \<Rightarrow> [c])"
  proof
    show "s_log sf = s_log s0 @ drop (length (s_log s0)) (s_log sf)"
      using f1 f2 f3 s by (auto simp: sf_def s4_def logline_fields)
    show "concat (map class_of_line (drop (length (s_log s0)) (s_log sf)))
            = (case r of None \<Rightarrow> [] | Some c \<Rightarrow> [c])"
      using f1 f2 f3 s by (auto simp: rr sf_def s4_def logline_fields class_of_line_simps)
  qed
  show "s_open s' = (r \<noteq> None)"
    using op by (auto simp: ctor init_dims_fields rr)
  show "s_is_image s' = (r = Some Image)"
    using im by (auto simp: ctor init_dims_fields rr)
  show "s_live s' = (if r = None then s_live s0 else r = Some Camera)"
    using lv by (auto simp: ctor init_dims_fields rr)
  show "r = Some Image \<Longrightarrow> s_cap s' \<noteq> None \<and> s_frame_cap s' = imread be tok"
  proof -
    assume "r = Some Image"
    hence k: "\<not> ok1" "\<not> ok2" "ok3" by (auto simp: rr split: if_splits)
    from cp[OF k] have "s_cap sf \<noteq> None" "s_frame_cap sf = imread be tok" by simp_all
    moreover have "s' = init_dims sf" using op k by (simp add: ctor)
    ultimately show ?thesis using init_dims_fields(4,5)[of sf] by simp
  qed
  show "classes_logged s0 s' = (case r of None \<Rightarrow> [] | Some c \<Rightarrow> [c])"
  proof (cases "s_open sf")
    case False
    then show ?thesis using lg cl by (simp add: ctor classes_logged_append)
  next
    case True
    from init_dims_fields(6)[of sf] obtain msg where
      "s_log (init_dims sf) = s_log sf @ [(INFO, msg)]" "class_of_line (INFO, msg) = []"
      by blast
    then show ?thesis using True lg cl by (simp add: ctor classes_logged_append)
  qed
qed

text \<open>
  Claim C2, as amended. For every token, backend and object before construction, the
  constructor announces exactly the classification that the ordered trial of the
  specification yields (camera only for a token of at most two characters that parses as
  an integer and whose test capture succeeds; otherwise video on a successful test
  capture; otherwise image when the decode is not empty), and none when all three fail;
  the source is open exactly when there is a classification, it is an image source
  exactly when the classification is image, and whenever a classification is assigned the
  live flag is true exactly when it is camera. When all three trials fail the constructor
  assigns no live flag: the member keeps the value it had.
\<close>

theorem constructor_ordered_trial:
  "classes_logged s0 (CVSource_ctor be s0 tok)
     = (case resolve_spec be tok of None \<Rightarrow> [] | Some c \<Rightarrow> [c]) \<and>
   s_open (CVSource_ctor be s0 tok) = (resolve_spec be tok \<noteq> None) \<and>
   s_is_image (CVSource_ctor be s0 tok) = (resolve_spec be tok = Some Image) \<and>
   s_live (CVSource_ctor be s0 tok)
     = (if resolve_spec be tok = None then s_live s0 else resolve_spec be tok = Some Camera)"
  using ctor_outcome(1-4)[where ?s0.0 = s0 and be = be and tok = tok] by simp

theorem constructor_ordered_trial_witness:
  "resolve_spec (be_camera (cap_stream [(img 2 2 3, 0)] (\<lambda>p. 30) True)) ''0'' = Some Camera \<and>
   s_live (CVSource_ctor (be_camera (cap_stream [(img 2 2 3, 0)] (\<lambda>p. 30) True)) src_init ''0'') \<and>
   resolve_spec (be_video (cap_stream [(img 2 2 3, 0)] (\<lambda>p. 30) True)) ''0'' = Some Video \<and>
   \<not> s_live (CVSource_ctor (be_video (cap_stream [(img 2 2 3, 0)] (\<lambda>p. 30) True)) src_init ''0'') \<and>
   resolve_spec (be_image (img 2 2 3)) ''abc'' = Some Image \<and>
   s_is_image (CVSource_ctor (be_image (img 2 2 3)) src_init ''abc'') \<and>
   classes_logged src_init (CVSource_ctor (be_image (img 2 2 3)) src_init ''abc'') = [Image] \<and>
   resolve_spec (be_image Mat_default) ''abc'' = None \<and>
   classes_logged src_init (CVSource_ctor (be_image Mat_default) src_init ''abc'') = [] \<and>
   \<not> s_open (CVSource_ctor (be_image Mat_default) src_init ''abc'') \<and>
   \<not> s_live (CVSource_ctor (be_image Mat_default) src_init ''abc'')"
proof -
  have d: "resolve_spec (be_image Mat_default) ''abc'' = None" "\<not> s_live src_init"
    by (simp_all add: resolve_spec_def be_image_def cap_closed_def test_capture_def
          Mat_default_def Mat_empty_def src_init_def)
  have a: "resolve_spec (be_camera (cap_stream [(img 2 2 3, 0)] (\<lambda>p. 30) True)) ''0'' = Some Camera"
    by (simp add: resolve_spec_def be_camera_def cap_stream_def test_capture_def stoi_def
          isspace_c_def isdigit_c_def digits_value_def img_def Mat_empty_def)
  have b: "resolve_spec (be_video (cap_stream [(img 2 2 3, 0)] (\<lambda>p. 30) True)) ''0'' = Some Video"
    by (simp add: resolve_spec_def be_video_def cap_stream_def cap_closed_def test_capture_def
          stoi_def isspace_c_def isdigit_c_def digits_value_def img_def Mat_empty_def)
  have c: "resolve_spec (be_image (img 2 2 3)) ''abc'' = Some Image"
    by (simp add: resolve_spec_def be_image_def cap_closed_def test_capture_def
          img_def Mat_empty_def)
  from constructor_ordered_trial[where ?s0.0 = src_init and tok = "''0''"
        and be = "be_camera (cap_stream [(img 2 2 3, 0)] (\<lambda>p. 30) True)"]
    constructor_ordered_trial[where ?s0.0 = src_init and tok = "''0''"
        and be = "be_video (cap_stream [(img 2 2 3, 0)] (\<lambda>p. 30) True)"]
    constructor_ordered_trial[where ?s0.0 = src_init and tok = "''abc''"
        and be = "be_image (img 2 2 3)"]
    constructor_ordered_trial[where ?s0.0 = src_init and tok = "''abc''"
        and be = "be_image Mat_default"]
    a b c d
  show ?thesis by simp
qed

text \<open>
  The claim as written fails for a token that no trial resolves: the constructor's last
  handler sets only the open flag, so on an object whose live flag was true before
  construction the source ends closed, with no classification, and still live.
\<close>

theorem unresolved_token_keeps_live_flag:
  "resolve_spec (be_image Mat_default) ''abc'' = None \<and>
   classes_logged (src_init\<lparr>s_live := True\<rparr>)
     (CVSource_ctor (be_image Mat_default) (src_init\<lparr>s_live := True\<rparr>) ''abc'') = [] \<and>
   \<not> s_open (CVSource_ctor (be_image Mat_default) (src_init\<lparr>s_live := True\<rparr>) ''abc'') \<and>
   s_live (CVSource_ctor (be_image Mat_default) (src_init\<lparr>s_live := True\<rparr>) ''abc'')"
proof -
  have d: "resolve_spec (be_image Mat_default) ''abc'' = None"
    by (simp add: resolve_spec_def be_image_def cap_closed_def test_capture_def
          Mat_default_def Mat_empty_def)
  from ctor_outcome(1,2,4)[where ?s0.0 = "src_init\<lparr>s_live := True\<rparr>" and tok = "''abc''"
        and be = "be_image Mat_default"] d
  show ?thesis by simp
qed

subsection \<open>Claim C8: \<open>setFPS\<close>\<close>

text \<open>
  Claim C8: the returned flag should be true exactly when the backend accepted the rate.
  The code returns its local \<open>ret\<close>, which it never assigns after initialising it to
  \<open>false\<close>; here it is evaluated on an open streaming source whose backend accepts the rate
  30. The rate is adopted and logged as the device rate, yet the flag is false. \<open>rewind\<close>
  on the same source returns true, and \<open>setWH\<close> returns true when the backend adopts the
  requested size: the sibling calls do set their flag.
\<close>

theorem setFPS_accepted_returns_false:
  "fst (setFPS 30 (CVSource_ctor (be_video (cap_stream [(img 2 2 3, 0)] (\<lambda>p. 25) True))
                     src_init ''a.avi'')) = False \<and>
   s_fps (snd (setFPS 30 (CVSource_ctor (be_video (cap_stream [(img 2 2 3, 0)] (\<lambda>p. 25) True))
                     src_init ''a.avi''))) = 30 \<and>
   last (s_log (snd (setFPS 30
          (CVSource_ctor (be_video (cap_stream [(img 2 2 3, 0)] (\<lambda>p. 25) True))
                     src_init ''a.avi'')))) = (INFO, ''Device frame rate is now %.2f'') \<and>
   fst (rewind (CVSource_ctor (be_video (cap_stream [(img 2 2 3, 0)] (\<lambda>p. 25) True))
                     src_init ''a.avi'')) = True \<and>
   fst (setWH 0 320 240 (CVSource_ctor (be_video (cap_stream [(img 2 2 3, 0)] (\<lambda>p. 25) True))
                     src_init ''a.avi'')) = True"
  by (simp add: setFPS_def rewind_def setWH_def CVSource_ctor_def trial_camera_def
        trial_video_def init_dims_def getFPS_def be_video_def cap_stream_def cap_closed_def
        cap_read_def cap_get_def cap_set_def logline_def src_init_def img_def Mat_empty_def
        static_cast_int_def setBayerType_def Let_def)

text \<open>Whatever the backend answers, the flag is false; a rejected rate is kept, with a warning.\<close>

lemma setFPS_flag: "fst (setFPS fps s) = False"
  by (simp add: setFPS_def Let_def case_prod_beta split: option.splits)

lemma setFPS_rejected:
  assumes "s_open s" "s_cap s = Some c" "fps > 0" "adopts c CAP_PROP_FPS fps = None"
  shows "s_fps (snd (setFPS fps s)) = fps"
    and "s_log (snd (setFPS fps s)) = s_log s @
           [(WRN, ''Warning! Failed to set device fps (attempted to set fps=%.2f).''),
            (INFO, ''Playback frame rate is now %.2f'')]"
  using assms by (simp_all add: setFPS_def Let_def cap_set_def logline_def)

subsection \<open>Claims C1 and C4: \<open>grab\<close>\<close>

lemma reshape_one_row:
  assumes "rows m = 1" "reshape m (channels m) 240 = Some m'"
  shows "rows m' = 240" "channels m' = channels m" "pix m' = pix m" "240 * cols m' = cols m"
proof -
  let ?ts = "cols m * channels m"
  from assms have ok: "\<not> 240 > ?ts" "(?ts div 240) * 240 = ?ts"
      "((?ts div 240) div channels m) * channels m = ?ts div 240"
    and m': "m' = m\<lparr>rows := 240, cols := (?ts div 240) div channels m, channels := channels m\<rparr>"
    by (auto simp: reshape_def Let_def split: if_splits)
  show "rows m' = 240" "channels m' = channels m" "pix m' = pix m"
    by (simp_all add: m')
  have cn: "channels m > 0" using ok(1) by (cases "channels m") auto
  have "(240 * ((?ts div 240) div channels m)) * channels m = cols m * channels m"
    using ok(2,3) by (metis mult.assoc mult.commute)
  hence "240 * ((?ts div 240) div channels m) = cols m" using cn by simp
  thus "240 * cols m' = cols m" by (simp add: m')
qed

lemma grab_after_read:
  assumes "s_open s" "grab_read s = Inr (True, s1)" "s_cap s1 = Some c"
  shows "grab ip ts msm s =
     (case grab_reshape
             ((if props c CAP_PROP_POS_MSEC \<le> 0 then (\<lambda>x. x\<lparr>s_timestamp := ts\<rparr>) else (\<lambda>x. x))
                (logline DBG ''Frame captured %dx%d[%d] @ %f (t_sys: %f ms, t_day: %f ms)''
                   (s1\<lparr>s_ms_since_midnight := msm,
                       s_cap := Some (c\<lparr>calls := calls c @ [CallGet CAP_PROP_POS_MSEC]\<rparr>),
                       s_timestamp := props c CAP_PROP_POS_MSEC\<rparr>))) of
        None \<Rightarrow> Inl CvException
      | Some s4 \<Rightarrow> Inr (Some (cv_flip ip (s_frame_flp (grab_convert ip s4)) 0), grab_convert ip s4))"
  using assms by (simp add: grab_def cap_get_def Let_def logline_def split: option.splits)

lemma grab_image_step:
  assumes "s_open s" "s_is_image s" "s_cap s = Some c" "rows (s_frame_cap s) \<noteq> 1"
  shows "\<exists>s'. grab ip ts msm s
            = Inr (Some (cv_flip ip (normalised ip (s_bayerType s) (s_frame_cap s)) 0), s') \<and>
          s_open s' \<and> s_is_image s' \<and> s_frame_cap s' = s_frame_cap s \<and>
          s_bayerType s' = s_bayerType s \<and>
          s_cap s' = Some (c\<lparr>calls := calls c @ [CallGet CAP_PROP_POS_MSEC]\<rparr>)"
proof -
  have r: "grab_read s = Inr (True, s)" using assms by (simp add: grab_read_def)
  show ?thesis
    using assms
    by (simp add: grab_after_read[OF assms(1) r assms(3)] grab_reshape_def grab_convert_def
          normalised_def logline_def)
qed

lemma grab_seq_image:
  assumes "s_open s" "s_is_image s" "s_cap s = Some c" "rows (s_frame_cap s) \<noteq> 1"
  shows "fst (grab_seq ip cls s)
           = replicate (length cls)
               (Inr (Some (cv_flip ip (normalised ip (s_bayerType s) (s_frame_cap s)) 0))) \<and>
         s_cap (snd (grab_seq ip cls s))
           = Some (c\<lparr>calls := calls c @ replicate (length cls) (CallGet CAP_PROP_POS_MSEC)\<rparr>) \<and>
         s_frame_cap (snd (grab_seq ip cls s)) = s_frame_cap s"
  using assms
proof (induction cls arbitrary: s c)
  case Nil
  then show ?case by simp
next
  case (Cons cl cls)
  from grab_image_step[OF Cons.prems, of ip "fst cl" "snd cl"] obtain s' where
    g: "grab ip (fst cl) (snd cl) s
          = Inr (Some (cv_flip ip (normalised ip (s_bayerType s) (s_frame_cap s)) 0), s')"
    and i: "s_open s'" "s_is_image s'" "s_frame_cap s' = s_frame_cap s"
      "s_bayerType s' = s_bayerType s"
      "s_cap s' = Some (c\<lparr>calls := calls c @ [CallGet CAP_PROP_POS_MSEC]\<rparr>)"
    by blast
  have r: "rows (s_frame_cap s') \<noteq> 1" using i Cons.prems by simp
  from Cons.IH[OF i(1,2,5) r] i g show ?case
    by (simp add: case_prod_beta replicate_append_same)
qed

lemma grab_false_only:
  assumes "grab ip ts msm s = Inr (None, s')"
  shows "\<not> s_open s \<or> (\<not> s_is_image s \<and> (\<exists>c. s_cap s = Some c \<and> \<not> fst (fst (cap_read c))))"
proof (cases "s_open s")
  case False
  then show ?thesis by simp
next
  case True
  show ?thesis
  proof (cases "grab_read s")
    case (Inl f)
    with assms True show ?thesis by (simp add: grab_def)
  next
    case (Inr p)
    obtain ok s1 where p: "p = (ok, s1)" by (cases p)
    show ?thesis
    proof (cases ok)
      case False
      with Inr p show ?thesis
        by (auto simp: grab_read_def case_prod_beta split: if_splits option.splits)
    next
      case True
      with assms \<open>s_open s\<close> Inr p show ?thesis
        by (auto simp: grab_def Let_def case_prod_beta split: option.splits)
    qed
  qed
qed

text \<open>
  Claim C1, as amended. For a source opened as a still image whose decoded image does not
  have exactly one row, every call of \<open>grab\<close> succeeds and yields the same frame: the cached
  decode, colour-normalised and flipped. No call reads a frame from the capture object of
  the failed video trial; each call does query that object once, for its stream position.
  (A one-row image is first reshaped to 240 rows, and \<open>grab\<close> ends with the library's
  exception when its size does not fit.) \<open>grab\<close> returns false only when the source is not
  open or a backend read fails.
\<close>

theorem grab_image_source:
  "resolve_spec be tok = Some Image \<Longrightarrow> rows (imread be tok) \<noteq> 1 \<Longrightarrow>
   fst (grab_seq ip cls (CVSource_ctor be s0 tok))
     = replicate (length cls)
         (Inr (Some (cv_flip ip
            (normalised ip (s_bayerType (CVSource_ctor be s0 tok)) (imread be tok)) 0))) \<and>
   s_frame_cap (snd (grab_seq ip cls (CVSource_ctor be s0 tok))) = imread be tok \<and>
   (\<exists>c. s_cap (CVSource_ctor be s0 tok) = Some c \<and>
        s_cap (snd (grab_seq ip cls (CVSource_ctor be s0 tok)))
          = Some (c\<lparr>calls := calls c @ replicate (length cls) (CallGet CAP_PROP_POS_MSEC)\<rparr>)) \<and>
   (grab ip ts msm s1 = Inr (None, s2) \<longrightarrow>
      \<not> s_open s1 \<or>
      (\<not> s_is_image s1 \<and> (\<exists>c. s_cap s1 = Some c \<and> \<not> fst (fst (cap_read c)))))"
proof -
  assume r: "resolve_spec be tok = Some Image" and n: "rows (imread be tok) \<noteq> 1"
  let ?s = "CVSource_ctor be s0 tok"
  from ctor_outcome(2,3,5)[where ?s0.0 = s0 and be = be and tok = tok] r
  have o: "s_open ?s" "s_is_image ?s" "s_cap ?s \<noteq> None" "s_frame_cap ?s = imread be tok"
    by simp_all
  then obtain c where c: "s_cap ?s = Some c" by blast
  have n': "rows (s_frame_cap ?s) \<noteq> 1" using n o by simp
  from grab_seq_image[OF o(1,2) c n', of ip cls] o(4) c grab_false_only[of ip ts msm s1 s2]
  show ?thesis by auto
qed

theorem grab_image_source_witness:
  "resolve_spec (be_image (img 2 2 3)) ''a.png'' = Some Image \<and>
   rows (imread (be_image (img 2 2 3)) ''a.png'') \<noteq> 1 \<and>
   fst (grab_seq ip0 [(1, 2), (3, 4)] (CVSource_ctor (be_image (img 2 2 3)) src_init ''a.png''))
     = [Inr (Some (cv_flip ip0 (img 2 2 3) 0)), Inr (Some (cv_flip ip0 (img 2 2 3) 0))] \<and>
   grab ip0 0 0 src_init = Inr (None, src_init) \<and> \<not> s_open src_init"
proof -
  have g: "grab ip0 0 0 src_init = Inr (None, src_init)" "\<not> s_open src_init"
    by (simp_all add: grab_def src_init_def)
  have h1: "resolve_spec (be_image (img 2 2 3)) ''a.png'' = Some Image"
    by (simp add: resolve_spec_def be_image_def cap_closed_def test_capture_def
          img_def Mat_empty_def)
  have h2: "rows (imread (be_image (img 2 2 3)) ''a.png'') \<noteq> 1"
    by (simp add: be_image_def img_def)
  have i: "imread (be_image (img 2 2 3)) ''a.png'' = img 2 2 3" "channels (img 2 2 3) = 3"
    by (simp_all add: be_image_def img_def)
  from grab_image_source[OF h1 h2, of ip0 "[(1, 2), (3, 4)]" src_init 0 0 src_init src_init]
    h1 h2 i g
  show ?thesis by (simp add: normalised_def)
qed

text \<open>
  The claim as written fails twice. A one-row still image of 100 columns is a source
  opened as image on which \<open>grab\<close> does not succeed: the reshape to 240 rows raises. And on
  a 2 by 2 still image \<open>grab\<close> succeeds but has touched the capture object: the get of the
  stream position is on its record of calls.
\<close>

theorem grab_image_raises_and_queries_backend:
  "resolve_spec (be_image (img 1 100 3)) ''a.png'' = Some Image \<and>
   grab ip0 0 0 (CVSource_ctor (be_image (img 1 100 3)) src_init ''a.png'') = Inl CvException \<and>
   (case grab ip0 0 0 (CVSource_ctor (be_image (img 2 2 3)) src_init ''a.png'') of
      Inr (Some f, s') \<Rightarrow> map_option calls (s_cap s') = Some [CallGet CAP_PROP_POS_MSEC]
    | _ \<Rightarrow> False)"
  by (simp add: resolve_spec_def grab_def grab_read_def grab_reshape_def grab_convert_def
        reshape_def CVSource_ctor_def trial_camera_def trial_video_def trial_image_def
        init_dims_def be_image_def cap_closed_def test_capture_def cap_get_def logline_def
        src_init_def img_def Mat_empty_def Let_def)

text \<open>
  Claim C4, as amended. When the frame \<open>grab\<close> has obtained (by a successful read, or the
  cached image) has exactly one row, it is reshaped to 240 rows, a fixed number that does
  not depend on the height of the source, with the same channel count and the same data,
  before the colour conversion and the flip, which work on the reshaped frame; when the
  frame's size does not fit 240 rows the library raises and \<open>grab\<close> ends abnormally.
\<close>

theorem one_row_frame_reshaped_to_240:
  "s_open s \<Longrightarrow> grab_read s = Inr (True, s1) \<Longrightarrow> s_cap s1 = Some c \<Longrightarrow>
   rows (s_frame_cap s1) = 1 \<Longrightarrow>
   (case reshape (s_frame_cap s1) (channels (s_frame_cap s1)) 240 of
      None \<Rightarrow> grab ip ts msm s = Inl CvException
    | Some m \<Rightarrow>
        rows m = 240 \<and> channels m = channels (s_frame_cap s1) \<and> pix m = pix (s_frame_cap s1) \<and>
        240 * cols m = cols (s_frame_cap s1) \<and>
        (\<exists>s'. grab ip ts msm s = Inr (Some (cv_flip ip (normalised ip (s_bayerType s1) m) 0), s')
              \<and> s_frame_cap s' = m \<and> s_height s' = s_height s1))"
proof -
  assume a: "s_open s" "grab_read s = Inr (True, s1)" "s_cap s1 = Some c"
    and one: "rows (s_frame_cap s1) = 1"
  define X where "X =
    (if props c CAP_PROP_POS_MSEC \<le> 0 then (\<lambda>x. x\<lparr>s_timestamp := ts\<rparr>) else (\<lambda>x. x))
      (logline DBG ''Frame captured %dx%d[%d] @ %f (t_sys: %f ms, t_day: %f ms)''
         (s1\<lparr>s_ms_since_midnight := msm,
             s_cap := Some (c\<lparr>calls := calls c @ [CallGet CAP_PROP_POS_MSEC]\<rparr>),
             s_timestamp := props c CAP_PROP_POS_MSEC\<rparr>))"
  have fx: "s_frame_cap X = s_frame_cap s1" "s_bayerType X = s_bayerType s1"
    "s_height X = s_height s1"
    by (simp_all add: X_def logline_def)
  have g: "grab ip ts msm s =
     (case grab_reshape X of
        None \<Rightarrow> Inl CvException
      | Some s4 \<Rightarrow> Inr (Some (cv_flip ip (s_frame_flp (grab_convert ip s4)) 0), grab_convert ip s4))"
    using grab_after_read[OF a, of ip ts msm] unfolding X_def .
  show ?thesis
  proof (cases "reshape (s_frame_cap s1) (channels (s_frame_cap s1)) 240")
    case None
    hence "grab_reshape X = None" using one by (simp add: grab_reshape_def fx)
    with None show ?thesis by (simp add: g)
  next
    case (Some m)
    define Y where "Y = logline DBG ''reshape image returned from camera to %dx%d[%d]''
                          (X\<lparr>s_frame_cap := m\<rparr>)"
    have "grab_reshape X = Some Y" using one Some by (simp add: grab_reshape_def fx Y_def)
    hence g': "grab ip ts msm s
                 = Inr (Some (cv_flip ip (s_frame_flp (grab_convert ip Y)) 0), grab_convert ip Y)"
      by (simp add: g)
    have fy: "s_frame_flp (grab_convert ip Y) = normalised ip (s_bayerType s1) m"
      "s_frame_cap (grab_convert ip Y) = m" "s_height (grab_convert ip Y) = s_height s1"
      using fx by (simp_all add: grab_convert_def normalised_def Y_def logline_def)
    from reshape_one_row[OF one Some] Some g' fy show ?thesis by simp
  qed
qed

theorem one_row_frame_reshaped_to_240_witness:
  "s_open (CVSource_ctor be_flat src_init ''a.avi'') \<and>
   rows (s_frame_cap (snd (projr (grab_read (CVSource_ctor be_flat src_init ''a.avi''))))) = 1 \<and>
   (\<exists>f s'. grab ip0 0 0 (CVSource_ctor be_flat src_init ''a.avi'') = Inr (Some f, s') \<and>
           rows (s_frame_cap s') = 240 \<and> cols (s_frame_cap s') = 2 \<and>
           channels (s_frame_cap s') = 1 \<and> pix (s_frame_cap s') = pix (img 1 480 1))"
proof -
  let ?s = "CVSource_ctor be_flat src_init ''a.avi''"
  let ?s1 = "snd (projr (grab_read ?s))"
  let ?c = "the (s_cap ?s1)"
  have ev: "s_open ?s" "grab_read ?s = Inr (True, ?s1)" "s_cap ?s1 = Some ?c"
    "rows (s_frame_cap ?s1) = 1" "s_frame_cap ?s1 = img 1 480 1"
    by (simp_all add: grab_read_def CVSource_ctor_def trial_camera_def trial_video_def
          init_dims_def be_flat_def be_video_def cap_stream_def cap_read_def cap_get_def
          logline_def src_init_def img_def Mat_empty_def Let_def static_cast_int_def)
  have rs: "reshape (img 1 480 1) 1 240 = Some ((img 1 480 1)\<lparr>rows := 240, cols := 2\<rparr>)"
    by (simp add: reshape_def img_def)
  from one_row_frame_reshaped_to_240[OF ev(1-4), of ip0 0 0] ev rs
  show ?thesis by (auto simp: img_def)
qed

text \<open>
  The claim as written fails: this source has height 2, and its one-row frame is reshaped
  to 240 rows, not to 2.
\<close>

theorem reshape_ignores_configured_height:
  "s_height (CVSource_ctor be_flat src_init ''a.avi'') = 2 \<and>
   s_width (CVSource_ctor be_flat src_init ''a.avi'') = 240 \<and>
   (case grab ip0 0 0 (CVSource_ctor be_flat src_init ''a.avi'') of
      Inr (Some f, s') \<Rightarrow>
        rows (s_frame_cap s') = 240 \<and> cols (s_frame_cap s') = 2 \<and> s_height s' = 2
    | _ \<Rightarrow> False)"
  by (simp add: grab_def grab_read_def grab_reshape_def grab_convert_def reshape_def
        CVSource_ctor_def trial_camera_def trial_video_def init_dims_def be_flat_def
        be_video_def cap_stream_def cap_read_def cap_get_def logline_def src_init_def img_def
        Mat_empty_def Let_def static_cast_int_def)

subsection \<open>Claim C5: committing the circumference points\<close>



















subsection \<open>Claim C3: a failed write, and the end of the session\<close>


























end
